theory Spec2Isabelle
  imports Complex_Main
begin

section \<open>Tensors and faults\<close>

text \<open>
  The models of \<^verbatim>\<open>src/models.py\<close> compute on torch tensors. Tensor entries are
  modelled as real numbers (exact arithmetic). The rounding of 32-bit floats is modelled
  for the return expression of \<^verbatim>\<open>SkipConn.forward\<close> only (\<open>squash32\<close> below), where it
  decides whether the bounds of the output interval are attained. All tensors are taken to
  live on one device on which the requested placement is available, so the only faults
  modelled are the shape, index and arithmetic faults that torch and Python raise.

  A coordinate batch is a 2-D tensor of shape \<open>[N, D]\<close>: \<open>N = length (rws x)\<close> rows of
  \<open>D = ncols x\<close> entries each. The column count is kept beside the rows so that the shape
  of an empty batch \<open>[0, D]\<close> is not lost.
\<close>

datatype error =
  ShapeMismatch | DimOutOfRange | IndexOutOfBounds | AmbiguousView | EmptyList
  | ZeroDivisionError

datatype batch = Batch (ncols: nat) (rws: "real list list")

text \<open>\<open>T1\<close> is a 1-D tensor (\<^verbatim>\<open>torch.tensor([])\<close> is \<open>T1 []\<close>), \<open>T2\<close> a 2-D one.\<close>

datatype tensor = T1 "real list" | T2 batch

definition wf_batch :: "batch \<Rightarrow> bool" where
  "wf_batch x = list_all (\<lambda>r. length r = ncols x) (rws x)"

fun tmap :: "(real \<Rightarrow> real) \<Rightarrow> tensor \<Rightarrow> tensor" where
  "tmap f (T1 v) = T1 (map f v)"
| "tmap f (T2 x) = T2 (Batch (ncols x) (map (map f) (rws x)))"


subsection \<open>torch.cat along dimension 1\<close>

text \<open>
  \<^verbatim>\<open>torch.cat(ts, 1)\<close>: a 1-D tensor with no element is skipped (torch's legacy rule for
  shape \<open>(0,)\<close>); the first tensor that is not skipped fixes the number of dimensions, and
  dimension 1 does not exist for a 1-D tensor; the others must be 2-D with the same number
  of rows. The rows are joined side by side.
\<close>

fun cat_should_skip :: "tensor \<Rightarrow> bool" where
  "cat_should_skip (T1 v) = (v = [])"
| "cat_should_skip (T2 x) = False"

fun as2d :: "tensor \<Rightarrow> batch option" where
  "as2d (T1 v) = None"
| "as2d (T2 x) = Some x"

definition hcat :: "real list list \<Rightarrow> real list list \<Rightarrow> real list list" where
  "hcat a b = map2 (@) a b"

definition cat1 :: "tensor list \<Rightarrow> error + tensor" where
  "cat1 ts =
     (if ts = [] then Inl EmptyList
      else case filter (\<lambda>t. \<not> cat_should_skip t) ts of
        [] \<Rightarrow> Inr (T1 [])
      | T1 v # rest \<Rightarrow> Inl DimOutOfRange
      | T2 x # rest \<Rightarrow>
          (case those (map as2d rest) of
             None \<Rightarrow> Inl ShapeMismatch
           | Some xs \<Rightarrow>
               if list_all (\<lambda>y. length (rws y) = length (rws x)) xs
               then Inr (T2 (Batch (sum_list (map ncols (x # xs)))
                                   (foldl hcat (rws x) (map rws xs))))
               else Inl ShapeMismatch))"

subsection \<open>Broadcasting a 1-D tensor against a batch\<close>

text \<open>
  \<^verbatim>\<open>v * x\<close> and \<^verbatim>\<open>x + v\<close> for \<open>v\<close> of shape \<open>[k]\<close> and \<open>x\<close> of shape \<open>[N, D]\<close>: the trailing
  dimensions must be equal or one of them 1; otherwise torch raises.
  \<open>f\<close> takes the entry of \<open>v\<close> first.
\<close>

definition bcast :: "(real \<Rightarrow> real \<Rightarrow> real) \<Rightarrow> real list \<Rightarrow> batch \<Rightarrow> error + batch" where
  "bcast f v x =
     (if length v = ncols x then Inr (Batch (ncols x) (map (\<lambda>r. map2 f v r) (rws x)))
      else if length v = 1 then Inr (Batch (ncols x) (map (map (f (hd v))) (rws x)))
      else if ncols x = 1 then Inr (Batch (length v) (map (\<lambda>r. map (\<lambda>a. f a (hd r)) v) (rws x)))
      else Inl ShapeMismatch)"

section \<open>nn.Linear\<close>

text \<open>
  A linear layer holds a weight matrix of shape \<open>[out_features, in_features]\<close> and a bias
  of shape \<open>[out_features]\<close>. torch draws the initial entries at random; here they are
  read from the functions \<open>w\<close> and \<open>b\<close>, so every weight matrix and bias of the right shape
  is the result of some construction.
\<close>

record linear =
  in_features :: nat
  out_features :: nat
  weight :: "real list list"
  bias :: "real list"

definition Linear :: "(nat \<Rightarrow> nat \<Rightarrow> real) \<Rightarrow> (nat \<Rightarrow> real) \<Rightarrow> nat \<Rightarrow> nat \<Rightarrow> linear" where
  "Linear w b n_in n_out =
     \<lparr>in_features = n_in, out_features = n_out,
      weight = map (\<lambda>i. map (w i) [0..<n_in]) [0..<n_out],
      bias = map b [0..<n_out]\<rparr>"

definition dot :: "real list \<Rightarrow> real list \<Rightarrow> real" where
  "dot u v = sum_list (map2 (*) u v)"

definition affine :: "linear \<Rightarrow> real list \<Rightarrow> real list" where
  "affine l v = map2 (\<lambda>wrow bi. dot wrow v + bi) (weight l) (bias l)"

text \<open>
  \<^verbatim>\<open>layer(x)\<close> is \<open>x W\<^sup>T + b\<close> on the last dimension, which must be \<open>in_features\<close> wide;
  otherwise torch raises (shapes cannot be multiplied).
\<close>

fun linear_forward :: "linear \<Rightarrow> tensor \<Rightarrow> error + tensor" where
  "linear_forward l (T1 v) =
     (if length v = in_features l then Inr (T1 (affine l v)) else Inl ShapeMismatch)"
| "linear_forward l (T2 x) =
     (if ncols x = in_features l
      then Inr (T2 (Batch (out_features l) (map (affine l) (rws x))))
      else Inl ShapeMismatch)"

section \<open>CenteredLinearMap\<close>

text \<open>
  The map stores the vectors \<open>m\<close> (scale) and \<open>b\<close> (offset), each with the device it is
  placed on. \<^verbatim>\<open>map\<close> re-places both on the accelerator when \<open>use_cuda\<close> is set, and this
  is the only state a forward call writes. Python's \<^verbatim>\<open>/\<close> raises on a zero divisor.
\<close>

datatype device = CPU | CUDA

record placed =
  dev :: device
  vals :: "real list"

definition cuda :: "placed \<Rightarrow> placed" where
  "cuda p = p\<lparr>dev := CUDA\<rparr>"

record linmap =
  lm_m :: placed
  lm_b :: placed
  lm_use_cuda :: bool

definition py_div :: "real \<Rightarrow> real \<Rightarrow> error + real" where
  "py_div a d = (if d = 0 then Inl ZeroDivisionError else Inr (a / d))"

definition axis_scale :: "real option \<Rightarrow> real \<Rightarrow> real \<Rightarrow> error + real" where
  "axis_scale sz lo hi = (case sz of Some s \<Rightarrow> py_div s (hi - lo) | None \<Rightarrow> Inr 1)"

definition CenteredLinearMap_init ::
  "real \<Rightarrow> real \<Rightarrow> real \<Rightarrow> real \<Rightarrow> real option \<Rightarrow> real option \<Rightarrow> bool \<Rightarrow> error + linmap" where
  "CenteredLinearMap_init xmin xmax ymin ymax x_size y_size use_cuda =
     (case axis_scale x_size xmin xmax of
        Inl e \<Rightarrow> Inl e
      | Inr x_m \<Rightarrow>
          (case axis_scale y_size ymin ymax of
             Inl e \<Rightarrow> Inl e
           | Inr y_m \<Rightarrow>
               (let x_b = - (xmin + xmax) * x_m / 2;
                    y_b = - (ymin + ymax) * y_m / 2
                in Inr \<lparr>lm_m = \<lparr>dev = CPU, vals = [x_m, y_m]\<rparr>,
                        lm_b = \<lparr>dev = CPU, vals = [x_b, y_b]\<rparr>,
                        lm_use_cuda = use_cuda\<rparr>)))"

definition place :: "linmap \<Rightarrow> linmap" where
  "place lm =
     (if lm_use_cuda lm then lm\<lparr>lm_m := cuda (lm_m lm), lm_b := cuda (lm_b lm)\<rparr> else lm)"

text \<open>\<^verbatim>\<open>map\<close> returns the map as the call leaves it, and \<^verbatim>\<open>self.m*x + self.b\<close> or the fault.\<close>

definition CenteredLinearMap_map :: "linmap \<Rightarrow> batch \<Rightarrow> linmap \<times> (error + batch)" where
  "CenteredLinearMap_map lm x =
     (let lm' = place lm
      in (lm', case bcast (*) (vals (lm_m lm')) x of
                 Inl e \<Rightarrow> Inl e
               | Inr mx \<Rightarrow> bcast (\<lambda>bi a. a + bi) (vals (lm_b lm')) mx))"

text \<open>
  \<^verbatim>\<open>if self._linmap: x = self._linmap.map(x)\<close>, the first statement of every forward.
\<close>

fun apply_linmap :: "linmap option \<Rightarrow> batch \<Rightarrow> linmap option \<times> (error + batch)" where
  "apply_linmap None x = (None, Inr x)"
| "apply_linmap (Some lm) x = (Some (fst (CenteredLinearMap_map lm x)), snd (CenteredLinearMap_map lm x))"

section \<open>SkipConn\<close>

text \<open>
  The constructor creates the input layer, then the hidden layers, then the output layer.
  The initial weights of the \<open>k\<close>-th layer created are read from \<open>w k\<close> and \<open>b k\<close>. The
  activation is a function applied to every entry. The stateless \<^verbatim>\<open>tanh\<close> and \<^verbatim>\<open>sig\<close>
  modules are not fields of the record.
\<close>

record skipconn =
  inLayer :: linear
  activation :: "real \<Rightarrow> real"
  hidden :: "linear list"
  outLayer :: linear
  sc_linmap :: "linmap option"
  sc_use_cuda :: bool

definition SkipConn_init ::
  "(nat \<Rightarrow> nat \<Rightarrow> nat \<Rightarrow> real) \<Rightarrow> (nat \<Rightarrow> nat \<Rightarrow> real) \<Rightarrow> nat \<Rightarrow> nat \<Rightarrow> nat \<Rightarrow> linmap option
     \<Rightarrow> (real \<Rightarrow> real) \<Rightarrow> bool \<Rightarrow> skipconn" where
  "SkipConn_init w b hidden_size num_hidden_layers init_size lm act use_cuda =
     (let out_size = hidden_size
      in \<lparr>inLayer = Linear (w 0) (b 0) init_size out_size,
          activation = act,
          hidden = map (\<lambda>i. Linear (w (Suc i)) (b (Suc i))
                                 (if i > 0 then out_size * 2 + init_size else out_size + init_size)
                                 out_size)
                       [0..<num_hidden_layers],
          outLayer = Linear (w (Suc num_hidden_layers)) (b (Suc num_hidden_layers))
                       (out_size * 2 + init_size) 1,
          sc_linmap = lm,
          sc_use_cuda = use_cuda\<rparr>)"

text \<open>
  The loop over the hidden layers, with the loop variables \<open>cur\<close> and \<open>prev\<close>; a fault in
  \<^verbatim>\<open>torch.cat\<close> or in a layer ends it.
\<close>

fun hidden_loop ::
  "(real \<Rightarrow> real) \<Rightarrow> linear list \<Rightarrow> tensor \<Rightarrow> tensor \<Rightarrow> tensor \<Rightarrow> error + tensor \<times> tensor" where
  "hidden_loop act [] cur prev x = Inr (cur, prev)"
| "hidden_loop act (layer # layers) cur prev x =
     (case cat1 [cur, prev, x] of
        Inl e \<Rightarrow> Inl e
      | Inr combined \<Rightarrow>
          (case linear_forward layer combined of
             Inl e \<Rightarrow> Inl e
           | Inr h \<Rightarrow> hidden_loop act layers (tmap act h) cur x))"

definition squash :: "real \<Rightarrow> real" where
  "squash y = (tanh y + 1) / 2"

text \<open>The forward pass after the linear map: from \<^verbatim>\<open>cur = ...\<close> to the return.\<close>

definition SkipConn_body :: "skipconn \<Rightarrow> batch \<Rightarrow> error + tensor" where
  "SkipConn_body sc x =
     (case linear_forward (inLayer sc) (T2 x) of
        Inl e \<Rightarrow> Inl e
      | Inr h \<Rightarrow>
          (case hidden_loop (activation sc) (hidden sc) (tmap (activation sc) h) (T1 []) (T2 x) of
             Inl e \<Rightarrow> Inl e
           | Inr (cur, prev) \<Rightarrow>
               (case cat1 [cur, prev, T2 x] of
                  Inl e \<Rightarrow> Inl e
                | Inr c \<Rightarrow>
                    (case linear_forward (outLayer sc) c of
                       Inl e \<Rightarrow> Inl e
                     | Inr y \<Rightarrow> Inr (tmap squash y)))))"

text \<open>
  A forward call returns the model as the call leaves it (only the linear map's placement
  can have changed) and the output or the fault.
\<close>

definition SkipConn_forward :: "skipconn \<Rightarrow> batch \<Rightarrow> skipconn \<times> (error + tensor)" where
  "SkipConn_forward sc x =
     (let r = apply_linmap (sc_linmap sc) x
      in (sc\<lparr>sc_linmap := fst r\<rparr>,
          case snd r of Inl e \<Rightarrow> Inl e | Inr x' \<Rightarrow> SkipConn_body sc x'))"

section \<open>Fourier\<close>

text \<open>
  The expansion works on a 3-D tensor of shape \<open>[N, D, L]\<close>: \<open>N = length (items t)\<close>,
  \<open>D = dim1 t\<close>, \<open>L = dim2 t\<close>.
\<close>

datatype tensor3 = T3 (dim1: nat) (dim2: nat) (items: "real list list list")

text \<open>\<^verbatim>\<open>x.unsqueeze(-1)\<close>: \<open>[N, D]\<close> becomes \<open>[N, D, 1]\<close>.\<close>

definition unsqueeze_last :: "batch \<Rightarrow> tensor3" where
  "unsqueeze_last x = T3 (ncols x) 1 (map (map (\<lambda>v. [v])) (rws x))"

text \<open>\<^verbatim>\<open>v * t\<close> for \<open>v\<close> of shape \<open>[k]\<close> and \<open>t\<close> of shape \<open>[N, D, L]\<close>, broadcast on the last dimension.\<close>

definition bcast3 :: "(real \<Rightarrow> real \<Rightarrow> real) \<Rightarrow> real list \<Rightarrow> tensor3 \<Rightarrow> error + tensor3" where
  "bcast3 f v t =
     (if length v = dim2 t then Inr (T3 (dim1 t) (dim2 t) (map (map (\<lambda>c. map2 f v c)) (items t)))
      else if length v = 1 then Inr (T3 (dim1 t) (dim2 t) (map (map (map (f (hd v)))) (items t)))
      else if dim2 t = 1
        then Inr (T3 (dim1 t) (length v) (map (map (\<lambda>c. map (\<lambda>a. f a (hd c)) v)) (items t)))
      else Inl ShapeMismatch)"

definition tmap3 :: "(real \<Rightarrow> real) \<Rightarrow> tensor3 \<Rightarrow> tensor3" where
  "tmap3 f t = T3 (dim1 t) (dim2 t) (map (map (map f)) (items t))"

text \<open>
  \<^verbatim>\<open>torch.cat(ts, dim=-1)\<close> on 3-D tensors: the first two dimensions must agree (no 3-D
  tensor is skipped).
\<close>

definition cat_last :: "tensor3 list \<Rightarrow> error + tensor3" where
  "cat_last ts =
     (case ts of
        [] \<Rightarrow> Inl EmptyList
      | t # rest \<Rightarrow>
          if list_all (\<lambda>u. length (items u) = length (items t) \<and> dim1 u = dim1 t) rest
          then Inr (T3 (dim1 t) (sum_list (map dim2 ts))
                       (foldl (map2 (map2 (@))) (items t) (map items rest)))
          else Inl ShapeMismatch)"

text \<open>
  \<^verbatim>\<open>t.view(N, -1)\<close> with \<open>N\<close> the first dimension of \<open>t\<close>: the last two dimensions are
  flattened. On a tensor with no row torch cannot infer the \<open>-1\<close> and raises
  (\<^verbatim>\<open>cannot reshape tensor of 0 elements into shape [0, -1]\<close>).
\<close>

definition view_rows :: "tensor3 \<Rightarrow> error + batch" where
  "view_rows t =
     (if items t = [] then Inl AmbiguousView
      else Inr (Batch (dim1 t * dim2 t) (map concat (items t))))"

text \<open>\<^verbatim>\<open>nn.LeakyReLU()\<close>, with its default slope 0.01.\<close>

definition LeakyReLU :: "real \<Rightarrow> real" where
  "LeakyReLU v = max 0 v + (1 / 100) * min 0 v"

record fourier =
  fourier_order :: nat
  f_inner_model :: skipconn
  f_linmap :: "linmap option"
  f_orders :: "real list"

definition Fourier_init ::
  "(nat \<Rightarrow> nat \<Rightarrow> nat \<Rightarrow> real) \<Rightarrow> (nat \<Rightarrow> nat \<Rightarrow> real) \<Rightarrow> nat \<Rightarrow> nat \<Rightarrow> nat \<Rightarrow> linmap option
     \<Rightarrow> bool \<Rightarrow> fourier" where
  "Fourier_init w b order hidden_size num_hidden_layers lm use_cuda =
     \<lparr>fourier_order = order,
      f_inner_model =
        SkipConn_init w b hidden_size num_hidden_layers (order * 4 + 2) None LeakyReLU use_cuda,
      f_linmap = lm,
      f_orders = map real [1..<order + 1]\<rparr>"

text \<open>The expansion of \<^verbatim>\<open>Fourier.forward\<close>, from \<^verbatim>\<open>unsqueeze\<close> to \<^verbatim>\<open>view\<close>.\<close>

definition Fourier_features :: "real list \<Rightarrow> batch \<Rightarrow> error + batch" where
  "Fourier_features orders x =
     (let x3 = unsqueeze_last x
      in case bcast3 (*) orders x3 of
           Inl e \<Rightarrow> Inl e
         | Inr ox \<Rightarrow>
             (case cat_last [tmap3 sin ox, tmap3 cos ox, x3] of
                Inl e \<Rightarrow> Inl e
              | Inr ff \<Rightarrow> view_rows ff))"

definition Fourier_forward :: "fourier \<Rightarrow> batch \<Rightarrow> fourier \<times> (error + tensor)" where
  "Fourier_forward f x =
     (let r = apply_linmap (f_linmap f) x;
          f' = f\<lparr>f_linmap := fst r\<rparr>
      in case snd r of
           Inl e \<Rightarrow> (f', Inl e)
         | Inr x' \<Rightarrow>
             (case Fourier_features (f_orders f) x' of
                Inl e \<Rightarrow> (f', Inl e)
              | Inr ff \<Rightarrow>
                  (let s = SkipConn_forward (f_inner_model f) ff
                   in (f'\<lparr>f_inner_model := fst s\<rparr>, snd s))))"

section \<open>Fourier2D\<close>

text \<open>\<^verbatim>\<open>x[:, j]\<close>: column \<open>j\<close> as a 1-D tensor; an index past the last column raises.\<close>

definition index_col :: "nat \<Rightarrow> batch \<Rightarrow> error + real list" where
  "index_col j x = (if j < ncols x then Inr (map (\<lambda>r. r ! j) (rws x)) else Inl IndexOutOfBounds)"

text \<open>\<^verbatim>\<open>(f(n*x[:,0]) * g(m*x[:,1])).unsqueeze(-1)\<close>, one appended feature of shape \<open>[N, 1]\<close>.\<close>

definition cross :: "(real \<Rightarrow> real) \<Rightarrow> (real \<Rightarrow> real) \<Rightarrow> real \<Rightarrow> real \<Rightarrow> batch \<Rightarrow> error + tensor" where
  "cross f g n m x =
     (case index_col 0 x of
        Inl e \<Rightarrow> Inl e
      | Inr c0 \<Rightarrow>
          (case index_col 1 x of
             Inl e \<Rightarrow> Inl e
           | Inr c1 \<Rightarrow>
               Inr (T2 (Batch 1 (map (\<lambda>v. [v])
                                     (map2 (*) (map (\<lambda>v. f (n * v)) c0) (map (\<lambda>v. g (m * v)) c1)))))))"

text \<open>Statements run in order: the first fault ends the loops.\<close>

fun collect :: "(error + 'a) list \<Rightarrow> error + 'a list" where
  "collect [] = Inr []"
| "collect (Inl e # rs) = Inl e"
| "collect (Inr v # rs) = (case collect rs of Inl e \<Rightarrow> Inl e | Inr vs \<Rightarrow> Inr (v # vs))"

record fourier2d =
  f2_fourier_order :: nat
  f2_inner_model :: skipconn
  f2_linmap :: "linmap option"
  f2_orders :: "real list"


definition Fourier2D_features :: "real list \<Rightarrow> batch \<Rightarrow> error + tensor" where
  "Fourier2D_features orders x =
     (case collect (concat (map (\<lambda>n. concat (map (\<lambda>m.
               [cross cos cos n m x, cross cos sin n m x,
                cross sin cos n m x, cross sin sin n m x]) orders)) orders)) of
        Inl e \<Rightarrow> Inl e
      | Inr features \<Rightarrow> cat1 (T2 x # features))"

text \<open>
  The inner model takes a batch; \<^verbatim>\<open>torch.cat\<close> of a list that starts with the batch \<open>x\<close>
  never returns a 1-D tensor, and \<open>to_batch\<close> states that as a fault that cannot occur.
\<close>

fun to_batch :: "tensor \<Rightarrow> error + batch" where
  "to_batch (T1 v) = Inl DimOutOfRange"
| "to_batch (T2 x) = Inr x"

definition Fourier2D_forward :: "fourier2d \<Rightarrow> batch \<Rightarrow> fourier2d \<times> (error + tensor)" where
  "Fourier2D_forward f x =
     (let r = apply_linmap (f2_linmap f) x;
          f' = f\<lparr>f2_linmap := fst r\<rparr>
      in case snd r of
           Inl e \<Rightarrow> (f', Inl e)
         | Inr x' \<Rightarrow>
             (case Fourier2D_features (f2_orders f) x' of
                Inl e \<Rightarrow> (f', Inl e)
              | Inr t \<Rightarrow>
                  (case to_batch t of
                     Inl e \<Rightarrow> (f', Inl e)
                   | Inr ff \<Rightarrow>
                       (let s = SkipConn_forward (f2_inner_model f) ff
                        in (f'\<lparr>f2_inner_model := fst s\<rparr>, snd s)))))"

section \<open>Taylor\<close>

text \<open>
  The inner SkipConn is built with the default activation \<^verbatim>\<open>nn.GELU\<close>, whose definition
  is torch's; it is the parameter \<open>gelu\<close> here. Its other defaults are no linear map and
  \<open>use_cuda = True\<close>.
\<close>

record taylor =
  taylor_order :: nat
  t_linmap :: "linmap option"
  t_inner_model :: skipconn

definition Taylor_init ::
  "(nat \<Rightarrow> nat \<Rightarrow> nat \<Rightarrow> real) \<Rightarrow> (nat \<Rightarrow> nat \<Rightarrow> real) \<Rightarrow> (real \<Rightarrow> real) \<Rightarrow> nat \<Rightarrow> nat \<Rightarrow> nat
     \<Rightarrow> linmap option \<Rightarrow> taylor" where
  "Taylor_init w b gelu order hidden_size num_hidden_layers lm =
     \<lparr>taylor_order = order,
      t_linmap = lm,
      t_inner_model =
        SkipConn_init w b hidden_size num_hidden_layers (order * 2 + 2) None gelu True\<rparr>"

text \<open>\<^verbatim>\<open>x**n\<close>, entry by entry.\<close>

definition pow_batch :: "batch \<Rightarrow> nat \<Rightarrow> batch" where
  "pow_batch x n = Batch (ncols x) (map (map (\<lambda>v. v ^ n)) (rws x))"

definition Taylor_features :: "nat \<Rightarrow> batch \<Rightarrow> error + tensor" where
  "Taylor_features order x = cat1 (map T2 (x # map (pow_batch x) [1..<order + 1]))"

definition Taylor_forward :: "taylor \<Rightarrow> batch \<Rightarrow> taylor \<times> (error + tensor)" where
  "Taylor_forward f x =
     (let r = apply_linmap (t_linmap f) x;
          f' = f\<lparr>t_linmap := fst r\<rparr>
      in case snd r of
           Inl e \<Rightarrow> (f', Inl e)
         | Inr x' \<Rightarrow>
             (case Taylor_features (taylor_order f) x' of
                Inl e \<Rightarrow> (f', Inl e)
              | Inr t \<Rightarrow>
                  (case to_batch t of
                     Inl e \<Rightarrow> (f', Inl e)
                   | Inr ff \<Rightarrow>
                       (let s = SkipConn_forward (t_inner_model f) ff
                        in (f'\<lparr>t_inner_model := fst s\<rparr>, snd s)))))"

section \<open>The return expression in binary32 arithmetic\<close>





section \<open>Shapes\<close>

text \<open>\<open>has_shape n c t\<close>: \<open>t\<close> is a 2-D tensor of \<open>n\<close> rows with \<open>c\<close> entries each.\<close>

fun has_shape :: "nat \<Rightarrow> nat \<Rightarrow> tensor \<Rightarrow> bool" where
  "has_shape n c (T1 v) = False"
| "has_shape n c (T2 x) = (length (rws x) = n \<and> ncols x = c \<and> wf_batch x)"

definition wf_linear :: "linear \<Rightarrow> bool" where
  "wf_linear l =
     (length (weight l) = out_features l \<and> length (bias l) = out_features l
      \<and> list_all (\<lambda>r. length r = in_features l) (weight l))"

section \<open>What a model computes from\<close>

text \<open>
  The values a forward pass reads: the weights and biases of the layers, the activation,
  the harmonic orders, and the entries of the linear map's scale and offset, without the
  device they are placed on.
\<close>

definition lm_values :: "linmap \<Rightarrow> real list \<times> real list" where
  "lm_values lm = (vals (lm_m lm), vals (lm_b lm))"

definition sc_values ::
  "skipconn \<Rightarrow> linear \<times> (real \<Rightarrow> real) \<times> linear list \<times> linear \<times> (real list \<times> real list) option" where
  "sc_values sc =
     (inLayer sc, activation sc, hidden sc, outLayer sc, map_option lm_values (sc_linmap sc))"

definition fourier_values :: "fourier \<Rightarrow> _" where
  "fourier_values f =
     (f_orders f, map_option lm_values (f_linmap f), sc_values (f_inner_model f))"

definition fourier2d_values :: "fourier2d \<Rightarrow> _" where
  "fourier2d_values f =
     (f2_orders f, map_option lm_values (f2_linmap f), sc_values (f2_inner_model f))"

definition taylor_values :: "taylor \<Rightarrow> _" where
  "taylor_values f =
     (taylor_order f, map_option lm_values (t_linmap f), sc_values (t_inner_model f))"

section \<open>Properties of CenteredLinearMap\<close>

lemma axis_scale_ok:
  "lo < hi \<Longrightarrow> axis_scale sz lo hi = Inr (case sz of Some s \<Rightarrow> s / (hi - lo) | None \<Rightarrow> 1)"
  by (simp add: axis_scale_def py_div_def split: option.splits)

lemma map_on_pairs:
  assumes "wf_batch x" "ncols x = 2" "length ms = 2" "length bs = 2"
  shows "(case bcast (*) ms x of Inl e \<Rightarrow> Inl e | Inr mx \<Rightarrow> bcast (\<lambda>bi a. a + bi) bs mx)
         = Inr (Batch 2 (map (\<lambda>r. [ms ! 0 * r ! 0 + bs ! 0, ms ! 1 * r ! 1 + bs ! 1]) (rws x)))"
proof -
  obtain m0 m1 where ms: "ms = [m0, m1]"
    using assms(3) by (cases ms; cases "tl ms") auto
  obtain b0 b1 where bs: "bs = [b0, b1]"
    using assms(4) by (cases bs; cases "tl bs") auto
  have rows: "\<And>r. r \<in> set (rws x) \<Longrightarrow> \<exists>a c. r = [a, c]"
  proof -
    fix r assume "r \<in> set (rws x)"
    then have "length r = 2"
      using assms(1,2) by (auto simp: wf_batch_def list_all_iff)
    then show "\<exists>a c. r = [a, c]"
      by (cases r; cases "tl r") auto
  qed
  have "map (\<lambda>r. map2 (\<lambda>bi a. a + bi) [b0, b1] (map2 (*) [m0, m1] r)) (rws x)
        = map (\<lambda>r. [m0 * r ! 0 + b0, m1 * r ! 1 + b1]) (rws x)"
    by (rule map_cong) (auto dest: rows)
  then show ?thesis
    using assms(2) by (simp add: bcast_def ms bs comp_def)
qed

text \<open>
  Claim C3. For \<open>xmin < xmax\<close> and \<open>ymin < ymax\<close> and any optional target sizes, the
  constructor succeeds with, per axis, scale \<open>size / (max - min)\<close> when a size is given and
  1 otherwise, and offset \<open>- (min + max) * scale / 2\<close>; the map of a batch of points
  \<open>[x\<^sub>0, x\<^sub>1]\<close> leaves these vectors' values as they are and returns
  \<open>[m\<^sub>0 * x\<^sub>0 + b\<^sub>0, m\<^sub>1 * x\<^sub>1 + b\<^sub>1]\<close> for every row; and with the x-range \<open>-2.5 .. 1.0\<close> and no
  x-size, the x-scale is 1 and the x-offset 0.75.
\<close>

theorem CenteredLinearMap_scale_offset:
  assumes "xmin < xmax" and "ymin < ymax"
  shows "\<exists>lm. CenteredLinearMap_init xmin xmax ymin ymax x_size y_size use_cuda = Inr lm
           \<and> vals (lm_m lm) =
               [case x_size of Some s \<Rightarrow> s / (xmax - xmin) | None \<Rightarrow> 1,
                case y_size of Some s \<Rightarrow> s / (ymax - ymin) | None \<Rightarrow> 1]
           \<and> vals (lm_b lm) =
               [- (xmin + xmax) * (vals (lm_m lm) ! 0) / 2,
                - (ymin + ymax) * (vals (lm_m lm) ! 1) / 2]
           \<and> (\<forall>x. wf_batch x \<and> ncols x = 2 \<longrightarrow>
                 vals (lm_m (fst (CenteredLinearMap_map lm x))) = vals (lm_m lm)
               \<and> vals (lm_b (fst (CenteredLinearMap_map lm x))) = vals (lm_b lm)
               \<and> snd (CenteredLinearMap_map lm x) =
                   Inr (Batch 2 (map (\<lambda>r. [vals (lm_m lm) ! 0 * r ! 0 + vals (lm_b lm) ! 0,
                                            vals (lm_m lm) ! 1 * r ! 1 + vals (lm_b lm) ! 1])
                                     (rws x))))
           \<and> (xmin = - 5 / 2 \<and> xmax = 1 \<and> x_size = None \<longrightarrow>
                 vals (lm_m lm) ! 0 = 1 \<and> vals (lm_b lm) ! 0 = 3 / 4)"
proof -
  define x_m where "x_m = (case x_size of Some s \<Rightarrow> s / (xmax - xmin) | None \<Rightarrow> 1)"
  define y_m where "y_m = (case y_size of Some s \<Rightarrow> s / (ymax - ymin) | None \<Rightarrow> 1)"
  define lm where "lm = \<lparr>lm_m = \<lparr>dev = CPU, vals = [x_m, y_m]\<rparr>,
                         lm_b = \<lparr>dev = CPU, vals = [- (xmin + xmax) * x_m / 2,
                                                    - (ymin + ymax) * y_m / 2]\<rparr>,
                         lm_use_cuda = use_cuda\<rparr>"
  have init: "CenteredLinearMap_init xmin xmax ymin ymax x_size y_size use_cuda = Inr lm"
    using assms
    by (simp add: CenteredLinearMap_init_def axis_scale_ok x_m_def y_m_def lm_def)
  have vm: "vals (lm_m (place lm)) = vals (lm_m lm)"
    and vb: "vals (lm_b (place lm)) = vals (lm_b lm)"
    by (simp_all add: place_def cuda_def)
  have len: "length (vals (lm_m lm)) = 2" "length (vals (lm_b lm)) = 2"
    by (simp_all add: lm_def)
  have mapped: "snd (CenteredLinearMap_map lm x) =
      Inr (Batch 2 (map (\<lambda>r. [vals (lm_m lm) ! 0 * r ! 0 + vals (lm_b lm) ! 0,
                               vals (lm_m lm) ! 1 * r ! 1 + vals (lm_b lm) ! 1]) (rws x)))"
    if "wf_batch x" "ncols x = 2" for x
    using map_on_pairs [OF that len] unfolding CenteredLinearMap_map_def Let_def vm vb by simp
  have kept: "vals (lm_m (fst (CenteredLinearMap_map lm x))) = vals (lm_m lm)
            \<and> vals (lm_b (fst (CenteredLinearMap_map lm x))) = vals (lm_b lm)" for x
    by (simp add: CenteredLinearMap_map_def Let_def vm vb)
  have special: "vals (lm_m lm) ! 0 = 1 \<and> vals (lm_b lm) ! 0 = 3 / 4"
    if "xmin = - 5 / 2 \<and> xmax = 1 \<and> x_size = None"
    using that by (simp add: lm_def x_m_def)
  have "vals (lm_m lm) = [x_m, y_m]"
    by (simp add: lm_def)
  moreover have "vals (lm_b lm) =
      [- (xmin + xmax) * (vals (lm_m lm) ! 0) / 2, - (ymin + ymax) * (vals (lm_m lm) ! 1) / 2]"
    by (simp add: lm_def)
  ultimately show ?thesis
    using init mapped kept special unfolding x_m_def y_m_def by blast
qed

theorem CenteredLinearMap_scale_offset_witness:
  "(- 5 / 2 :: real) < 1 \<and> (- 11 / 10 :: real) < 11 / 10
   \<and> (\<exists>lm. CenteredLinearMap_init (- 5 / 2) 1 (- 11 / 10) (11 / 10) None (Some 22) True = Inr lm
          \<and> vals (lm_m lm) = [1, 10] \<and> vals (lm_b lm) = [3 / 4, 0]
          \<and> snd (CenteredLinearMap_map lm (Batch 2 [[0, 0], [1, 1 / 10]]))
              = Inr (Batch 2 [[3 / 4, 0], [7 / 4, 1]]))"
proof -
  have h1: "(- 5 / 2 :: real) < 1" and h2: "(- 11 / 10 :: real) < 11 / 10"
    by simp_all
  obtain lm where lm:
    "CenteredLinearMap_init (- 5 / 2) 1 (- 11 / 10) (11 / 10) None (Some 22) True = Inr lm"
    "vals (lm_m lm) = [case None :: real option of Some s \<Rightarrow> s / (1 - (- 5 / 2)) | None \<Rightarrow> 1,
                       case Some (22 :: real) of Some s \<Rightarrow> s / (11 / 10 - (- 11 / 10)) | None \<Rightarrow> 1]"
    "vals (lm_b lm) = [- (- 5 / 2 + 1) * (vals (lm_m lm) ! 0) / 2,
                       - (- 11 / 10 + 11 / 10) * (vals (lm_m lm) ! 1) / 2]"
    "\<forall>x. wf_batch x \<and> ncols x = 2 \<longrightarrow>
         vals (lm_m (fst (CenteredLinearMap_map lm x))) = vals (lm_m lm)
       \<and> vals (lm_b (fst (CenteredLinearMap_map lm x))) = vals (lm_b lm)
       \<and> snd (CenteredLinearMap_map lm x) =
           Inr (Batch 2 (map (\<lambda>r. [vals (lm_m lm) ! 0 * r ! 0 + vals (lm_b lm) ! 0,
                                    vals (lm_m lm) ! 1 * r ! 1 + vals (lm_b lm) ! 1])
                             (rws x)))"
    using CenteredLinearMap_scale_offset [OF h1 h2, of None "Some 22" True] by blast
  have wf: "wf_batch (Batch 2 [[0, 0], [1, 1 / 10]]) \<and> ncols (Batch 2 [[0, 0], [1, 1 / 10]]) = 2"
    by (simp add: wf_batch_def)
  have "snd (CenteredLinearMap_map lm (Batch 2 [[0, 0], [1, 1 / 10]]))
        = Inr (Batch 2 [[3 / 4, 0], [7 / 4, 1]])"
    using lm(4) wf lm(2,3) by simp
  then show ?thesis
    using lm(1,2,3) by auto
qed

section \<open>Shapes through the layers of SkipConn\<close>

lemma has_shape_T2: "has_shape n c t \<Longrightarrow> \<exists>x. t = T2 x \<and> length (rws x) = n \<and> ncols x = c \<and> wf_batch x"
  by (cases t) auto

lemma wf_linear_Linear: "wf_linear (Linear w b n_in n_out)"
  by (simp add: wf_linear_def Linear_def list_all_iff)

lemma Linear_sel:
  "in_features (Linear w b n_in n_out) = n_in" "out_features (Linear w b n_in n_out) = n_out"
  by (simp_all add: Linear_def)

lemma length_affine: "wf_linear l \<Longrightarrow> length (affine l v) = out_features l"
  by (simp add: affine_def wf_linear_def)

lemma linear_forward_shape:
  assumes "wf_linear l" "has_shape n (in_features l) t"
  shows "\<exists>t'. linear_forward l t = Inr t' \<and> has_shape n (out_features l) t'"
  using assms by (cases t) (auto simp: wf_batch_def list_all_iff length_affine)

lemma linear_forward_mismatch:
  assumes "has_shape n c t" "c \<noteq> in_features l"
  shows "linear_forward l t = Inl ShapeMismatch"
  using assms by (cases t) auto

lemma tmap_shape: "has_shape n c t \<Longrightarrow> has_shape n c (tmap f t)"
  by (cases t) (auto simp: wf_batch_def list_all_iff)

lemma hcat_wf:
  assumes "list_all (\<lambda>r. length r = a) xs" "list_all (\<lambda>r. length r = c) ys"
  shows "list_all (\<lambda>r. length r = a + c) (hcat xs ys)"
proof -
  have "length u + length v = a + c" if "(u, v) \<in> set (zip xs ys)" for u v
    using assms set_zip_leftD [OF that] set_zip_rightD [OF that] by (simp add: list_all_iff)
  then show ?thesis
    by (auto simp: hcat_def list_all_iff)
qed

lemma length_hcat: "length ys = length xs \<Longrightarrow> length (hcat xs ys) = length xs"
  by (simp add: hcat_def)

lemma cat1_first:
  assumes "has_shape n a cur" "has_shape n c x"
  shows "\<exists>t. cat1 [cur, T1 [], x] = Inr t \<and> has_shape n (a + c) t"
proof -
  obtain u where u: "cur = T2 u" "length (rws u) = n" "ncols u = a" "wf_batch u"
    using has_shape_T2 [OF assms(1)] by blast
  obtain v where v: "x = T2 v" "length (rws v) = n" "ncols v = c" "wf_batch v"
    using has_shape_T2 [OF assms(2)] by blast
  have "cat1 [cur, T1 [], x] = Inr (T2 (Batch (a + c) (hcat (rws u) (rws v))))"
    by (simp add: cat1_def u v)
  moreover have "has_shape n (a + c) (T2 (Batch (a + c) (hcat (rws u) (rws v))))"
    using u v hcat_wf [of a "rws u" c "rws v"] by (simp add: wf_batch_def length_hcat)
  ultimately show ?thesis by simp
qed

lemma cat1_triple:
  assumes "has_shape n a cur" "has_shape n p prev" "has_shape n c x"
  shows "\<exists>t. cat1 [cur, prev, x] = Inr t \<and> has_shape n (a + p + c) t"
proof -
  obtain u where u: "cur = T2 u" "length (rws u) = n" "ncols u = a" "wf_batch u"
    using has_shape_T2 [OF assms(1)] by blast
  obtain q where q: "prev = T2 q" "length (rws q) = n" "ncols q = p" "wf_batch q"
    using has_shape_T2 [OF assms(2)] by blast
  obtain v where v: "x = T2 v" "length (rws v) = n" "ncols v = c" "wf_batch v"
    using has_shape_T2 [OF assms(3)] by blast
  have "cat1 [cur, prev, x] = Inr (T2 (Batch (a + p + c) (hcat (hcat (rws u) (rws q)) (rws v))))"
    by (simp add: cat1_def u q v)
  moreover have "has_shape n (a + p + c) (T2 (Batch (a + p + c) (hcat (hcat (rws u) (rws q)) (rws v))))"
    using u q v hcat_wf [OF hcat_wf [of a "rws u" p "rws q"], of c "rws v"]
    by (simp add: wf_batch_def length_hcat)
  ultimately show ?thesis by simp
qed


lemma hidden_loop_rest:
  assumes "\<forall>l\<in>set ls. wf_linear l \<and> in_features l = hs * 2 + isz \<and> out_features l = hs"
    and "has_shape n hs cur" "has_shape n hs prev" "has_shape n isz x"
  shows "\<exists>c p. hidden_loop act ls cur prev x = Inr (c, p) \<and> has_shape n hs c \<and> has_shape n hs p"
  using assms
proof (induction ls arbitrary: cur prev)
  case Nil
  then show ?case by simp
next
  case (Cons l ls)
  obtain t where t: "cat1 [cur, prev, x] = Inr t" "has_shape n (hs + hs + isz) t"
    using cat1_triple [OF Cons.prems(2,3,4)] by blast
  have l: "wf_linear l" "in_features l = hs * 2 + isz" "out_features l = hs"
    using Cons.prems(1) by simp_all
  have "has_shape n (in_features l) t"
    using t(2) l(2) by (simp add: mult_2_right)
  from linear_forward_shape [OF l(1) this]
  obtain h where h: "linear_forward l t = Inr h" "has_shape n hs h"
    unfolding l(3) by blast
  have rest: "\<forall>l\<in>set ls. wf_linear l \<and> in_features l = hs * 2 + isz \<and> out_features l = hs"
    using Cons.prems(1) by simp
  have step: "hidden_loop act (l # ls) cur prev x = hidden_loop act ls (tmap act h) cur x"
    by (simp add: t(1) h(1))
  show ?case
    unfolding step by (rule Cons.IH [OF rest tmap_shape [OF h(2)] Cons.prems(2,4)])
qed

lemma hidden_loop_first:
  assumes "wf_linear l" "in_features l = hs + isz" "out_features l = hs"
    and "\<forall>l\<in>set ls. wf_linear l \<and> in_features l = hs * 2 + isz \<and> out_features l = hs"
    and "has_shape n hs cur" "has_shape n isz x"
  shows "\<exists>c p. hidden_loop act (l # ls) cur (T1 []) x = Inr (c, p)
           \<and> has_shape n hs c \<and> has_shape n hs p"
proof -
  obtain t where t: "cat1 [cur, T1 [], x] = Inr t" "has_shape n (hs + isz) t"
    using cat1_first [OF assms(5,6)] by blast
  have "has_shape n (in_features l) t"
    using t(2) assms(2) by simp
  from linear_forward_shape [OF assms(1) this]
  obtain h where h: "linear_forward l t = Inr h" "has_shape n hs h"
    unfolding assms(3) by blast
  have step: "hidden_loop act (l # ls) cur (T1 []) x = hidden_loop act ls (tmap act h) cur x"
    by (simp add: t(1) h(1))
  show ?thesis
    unfolding step by (rule hidden_loop_rest [OF assms(4) tmap_shape [OF h(2)] assms(5,6)])
qed

lemma SkipConn_init_sel:
  "inLayer (SkipConn_init w b hs nl isz lm act uc) = Linear (w 0) (b 0) isz hs"
  "activation (SkipConn_init w b hs nl isz lm act uc) = act"
  "outLayer (SkipConn_init w b hs nl isz lm act uc) = Linear (w (Suc nl)) (b (Suc nl)) (hs * 2 + isz) 1"
  "sc_linmap (SkipConn_init w b hs nl isz lm act uc) = lm"
  "sc_use_cuda (SkipConn_init w b hs nl isz lm act uc) = uc"
  by (simp_all add: SkipConn_init_def)

lemma SkipConn_init_hidden_0:
  "hidden (SkipConn_init w b hs 0 isz lm act uc) = []"
  by (simp add: SkipConn_init_def)

lemma SkipConn_init_hidden_Suc:
  "hidden (SkipConn_init w b hs (Suc k) isz lm act uc) =
     Linear (w 1) (b 1) (hs + isz) hs
     # map (\<lambda>i. Linear (w (Suc i)) (b (Suc i)) (hs * 2 + isz) hs) [1..<Suc k]"
proof -
  have "[0..<Suc k] = 0 # [1..<Suc k]"
    by (simp add: upt_conv_Cons del: upt_Suc)
  then show ?thesis
    unfolding SkipConn_init_def Let_def by (simp del: upt_Suc)
qed


lemma SkipConn_init_hidden_take:
  assumes "1 \<le> k" "k \<le> nl"
  shows "\<exists>ls. take k (hidden (SkipConn_init w b hs nl isz lm act uc))
               = Linear (w 1) (b 1) (hs + isz) hs # ls
           \<and> (\<forall>l\<in>set ls. wf_linear l \<and> in_features l = hs * 2 + isz \<and> out_features l = hs)"
proof -
  obtain j where nl: "nl = Suc j"
    using assms by (cases nl) auto
  obtain i where k: "k = Suc i"
    using assms(1) by (cases k) auto
  let ?rest = "map (\<lambda>i. Linear (w (Suc i)) (b (Suc i)) (hs * 2 + isz) hs) [1..<Suc j]"
  have "take k (hidden (SkipConn_init w b hs nl isz lm act uc))
        = Linear (w 1) (b 1) (hs + isz) hs # take i ?rest"
    unfolding nl k SkipConn_init_hidden_Suc by simp
  moreover have "\<forall>l\<in>set (take i ?rest).
      wf_linear l \<and> in_features l = hs * 2 + isz \<and> out_features l = hs"
  proof
    fix l assume "l \<in> set (take i ?rest)"
    then have "l \<in> set ?rest"
      by (rule in_set_takeD)
    then show "wf_linear l \<and> in_features l = hs * 2 + isz \<and> out_features l = hs"
      by (auto simp: wf_linear_Linear Linear_sel)
  qed
  ultimately show ?thesis by blast
qed

lemma SkipConn_hidden_prefix:
  assumes "1 \<le> k" "k \<le> nl" "has_shape n hs cur" "has_shape n isz x"
  shows "\<exists>c p. hidden_loop a (take k (hidden (SkipConn_init w b hs nl isz lm act uc))) cur (T1 []) x
                 = Inr (c, p)
           \<and> has_shape n hs c \<and> has_shape n hs p"
proof -
  obtain ls where ls:
    "take k (hidden (SkipConn_init w b hs nl isz lm act uc)) = Linear (w 1) (b 1) (hs + isz) hs # ls"
    "\<forall>l\<in>set ls. wf_linear l \<and> in_features l = hs * 2 + isz \<and> out_features l = hs"
    using SkipConn_init_hidden_take [OF assms(1,2)] by blast
  show ?thesis
    unfolding ls(1)
    by (rule hidden_loop_first [OF wf_linear_Linear _ _ ls(2) assms(3,4)])
       (simp_all add: Linear_sel)
qed




lemma SkipConn_in_layer:
  assumes "has_shape n isz (T2 x)"
  shows "\<exists>h. linear_forward (inLayer (SkipConn_init w b hs nl isz lm act uc)) (T2 x) = Inr h
           \<and> has_shape n hs (tmap act h)"
proof -
  have "has_shape n (in_features (Linear (w 0) (b 0) isz hs)) (T2 x)"
    using assms by (simp add: Linear_sel)
  from linear_forward_shape [OF wf_linear_Linear this]
  show ?thesis
    unfolding SkipConn_init_sel Linear_sel using tmap_shape by blast
qed

lemma SkipConn_body_ok:
  assumes "1 \<le> nl" "has_shape n isz (T2 x)"
  shows "\<exists>y. SkipConn_body (SkipConn_init w b hs nl isz lm act uc) x = Inr y \<and> has_shape n 1 y"
proof -
  let ?sc = "SkipConn_init w b hs nl isz lm act uc"
  obtain h where h: "linear_forward (inLayer ?sc) (T2 x) = Inr h" "has_shape n hs (tmap act h)"
    using SkipConn_in_layer [OF assms(2)] by blast
  have "take nl (hidden ?sc) = hidden ?sc"
    by (simp add: SkipConn_init_def)
  with SkipConn_hidden_prefix [OF assms(1) order_refl h(2) assms(2), of act w b lm act uc]
  obtain c p where cp: "hidden_loop act (hidden ?sc) (tmap act h) (T1 []) (T2 x) = Inr (c, p)"
    "has_shape n hs c" "has_shape n hs p"
    by auto
  obtain t where t: "cat1 [c, p, T2 x] = Inr t" "has_shape n (hs + hs + isz) t"
    using cat1_triple [OF cp(2,3) assms(2)] by blast
  have "has_shape n (in_features (outLayer ?sc)) t"
    using t(2) by (simp add: SkipConn_init_sel Linear_sel mult_2_right)
  from linear_forward_shape [OF _ this]
  obtain y where y: "linear_forward (outLayer ?sc) t = Inr y" "has_shape n 1 y"
    by (auto simp: SkipConn_init_sel Linear_sel wf_linear_Linear)
  have "SkipConn_body ?sc x = Inr (tmap squash y)"
    unfolding SkipConn_body_def h(1) by (simp add: SkipConn_init_sel(2) cp(1) t(1) y(1))
  then show ?thesis
    using tmap_shape [OF y(2)] by blast
qed

lemma SkipConn_body_no_hidden:
  assumes "has_shape n isz (T2 x)" "0 < hs"
  shows "SkipConn_body (SkipConn_init w b hs 0 isz lm act uc) x = Inl ShapeMismatch"
proof -
  let ?sc = "SkipConn_init w b hs 0 isz lm act uc"
  obtain h where h: "linear_forward (inLayer ?sc) (T2 x) = Inr h" "has_shape n hs (tmap act h)"
    using SkipConn_in_layer [OF assms(1)] by blast
  obtain t where t: "cat1 [tmap act h, T1 [], T2 x] = Inr t" "has_shape n (hs + isz) t"
    using cat1_first [OF h(2) assms(1)] by blast
  have "hs + isz \<noteq> in_features (outLayer ?sc)"
    using assms(2) by (simp add: SkipConn_init_sel Linear_sel)
  from linear_forward_mismatch [OF t(2) this]
  show ?thesis
    unfolding SkipConn_body_def h(1)
    by (simp add: SkipConn_init_sel(2) SkipConn_init_hidden_0 t(1))
qed

lemma SkipConn_body_width:
  assumes "ncols x \<noteq> isz"
  shows "SkipConn_body (SkipConn_init w b hs nl isz lm act uc) x = Inl ShapeMismatch"
  using assms by (simp add: SkipConn_body_def SkipConn_init_sel Linear_sel)

section \<open>SkipConn: the claims\<close>

text \<open>
  Claim C1 (a SkipConn with no hidden layer produces an \<open>[N, 1]\<close> output without a fault).
  The code does not: the output layer is always built \<open>2 * hidden_size + init_size\<close> wide,
  while with no hidden layer \<open>prev\<close> is still the empty tensor and the concatenation is
  \<open>hidden_size + init_size\<close> wide (lemma \<open>SkipConn_body_no_hidden\<close>, for every positive
  \<open>hidden_size\<close>). At \<open>hidden_size = 1\<close>, \<open>init_size = 2\<close> and the batch of the one point
  \<open>[0, 0]\<close>, whatever the weights and the activation, forward raises the shape fault.
\<close>

theorem SkipConn_no_hidden_layers_faults:
  "snd (SkipConn_forward (SkipConn_init w b 1 0 2 None act uc) (Batch 2 [[0, 0]]))
     = Inl ShapeMismatch"
proof -
  have "has_shape 1 2 (T2 (Batch 2 [[0, 0]]))"
    by (simp add: wf_batch_def)
  from SkipConn_body_no_hidden [OF this, of 1 w b None act uc]
  show ?thesis
    by (simp add: SkipConn_forward_def SkipConn_init_sel)
qed

lemma hidden_loop_snoc:
  "hidden_loop act (ls @ [l]) cur prev x =
     (case hidden_loop act ls cur prev x of
        Inl e \<Rightarrow> Inl e
      | Inr (c, p) \<Rightarrow>
          (case cat1 [c, p, x] of
             Inl e \<Rightarrow> Inl e
           | Inr t \<Rightarrow>
               (case linear_forward l t of
                  Inl e \<Rightarrow> Inl e
                | Inr h \<Rightarrow> Inr (tmap act h, c))))"
  by (induction ls arbitrary: cur prev) (simp_all split: sum.splits)

lemma SkipConn_init_hidden_nth:
  assumes "k < nl"
  shows "hidden (SkipConn_init w b hs nl isz lm act uc) ! k
         = Linear (w (Suc k)) (b (Suc k)) (if 0 < k then hs * 2 + isz else hs + isz) hs"
  using assms by (simp add: SkipConn_init_def del: upt_Suc)

lemma SkipConn_init_hidden_length:
  "length (hidden (SkipConn_init w b hs nl isz lm act uc)) = nl"
  by (simp add: SkipConn_init_def)

lemma SkipConn_hidden_step:
  assumes "k < nl" "has_shape n isz x" "has_shape n hs cur"
  shows "\<exists>c p t h.
           hidden_loop act (take k (hidden (SkipConn_init w b hs nl isz lm a uc))) cur (T1 []) x
             = Inr (c, p)
         \<and> (k = 0 \<longrightarrow> c = cur \<and> p = T1 [])
         \<and> (0 < k \<longrightarrow> has_shape n hs p)
         \<and> has_shape n hs c
         \<and> cat1 [c, p, x] = Inr t
         \<and> has_shape n (if k = 0 then hs + isz else 2 * hs + isz) t
         \<and> in_features (hidden (SkipConn_init w b hs nl isz lm a uc) ! k)
             = (if k = 0 then hs + isz else 2 * hs + isz)
         \<and> linear_forward (hidden (SkipConn_init w b hs nl isz lm a uc) ! k) t = Inr h
         \<and> has_shape n hs (tmap act h)
         \<and> hidden_loop act (take (Suc k) (hidden (SkipConn_init w b hs nl isz lm a uc)))
              cur (T1 []) x
             = Inr (tmap act h, c)"
proof -
  let ?ls = "hidden (SkipConn_init w b hs nl isz lm a uc)"
  let ?wd = "if k = 0 then hs + isz else 2 * hs + isz"
  have layer: "?ls ! k = Linear (w (Suc k)) (b (Suc k)) ?wd hs"
    unfolding SkipConn_init_hidden_nth [OF assms(1)] by (simp add: mult.commute)
  have wl: "wf_linear (?ls ! k)" "in_features (?ls ! k) = ?wd" "out_features (?ls ! k) = hs"
    unfolding layer by (simp_all add: wf_linear_Linear Linear_sel)
  obtain c p t where st: "hidden_loop act (take k ?ls) cur (T1 []) x = Inr (c, p)"
    and first: "k = 0 \<longrightarrow> c = cur \<and> p = T1 []"
    and later: "0 < k \<longrightarrow> has_shape n hs p"
    and c: "has_shape n hs c"
    and t: "cat1 [c, p, x] = Inr t" "has_shape n ?wd t"
  proof (cases "k = 0")
    case True
    obtain t where "cat1 [cur, T1 [], x] = Inr t" "has_shape n (hs + isz) t"
      using cat1_first [OF assms(3,2)] by blast
    then show ?thesis
      using True assms(3) by (intro that [of cur "T1 []" t]) simp_all
  next
    case False
    then have k: "1 \<le> k" "k \<le> nl"
      using assms(1) by simp_all
    obtain c p where cp: "hidden_loop act (take k ?ls) cur (T1 []) x = Inr (c, p)"
      "has_shape n hs c" "has_shape n hs p"
      using SkipConn_hidden_prefix [OF k assms(3,2)] by blast
    obtain t where "cat1 [c, p, x] = Inr t" "has_shape n (hs + hs + isz) t"
      using cat1_triple [OF cp(2,3) assms(2)] by blast
    then show ?thesis
      using False cp by (intro that [of c p t]) (simp_all add: mult_2)
  qed
  have "has_shape n (in_features (?ls ! k)) t"
    using t(2) unfolding wl(2) .
  from linear_forward_shape [OF wl(1) this]
  obtain h where h: "linear_forward (?ls ! k) t = Inr h" "has_shape n hs h"
    unfolding wl(3) by blast
  have "take (Suc k) ?ls = take k ?ls @ [?ls ! k]"
    using assms(1) by (intro take_Suc_conv_app_nth) (simp add: SkipConn_init_hidden_length)
  then have next_state: "hidden_loop act (take (Suc k) ?ls) cur (T1 []) x = Inr (tmap act h, c)"
    by (simp add: hidden_loop_snoc st t(1) h(1))
  show ?thesis
    using st first later c t wl(2) h(1) tmap_shape [OF h(2), of act] next_state by blast
qed

lemma SkipConn_body_steps:
  assumes "1 \<le> nl" "has_shape n isz (T2 x)"
  shows "\<exists>h0 c p t y.
           linear_forward (inLayer (SkipConn_init w b hs nl isz lm act uc)) (T2 x) = Inr h0
         \<and> has_shape n hs (tmap act h0)
         \<and> hidden_loop act (hidden (SkipConn_init w b hs nl isz lm act uc)) (tmap act h0) (T1 [])
              (T2 x) = Inr (c, p)
         \<and> has_shape n hs c \<and> has_shape n hs p
         \<and> cat1 [c, p, T2 x] = Inr t
         \<and> has_shape n (2 * hs + isz) t
         \<and> linear_forward (outLayer (SkipConn_init w b hs nl isz lm act uc)) t = Inr y
         \<and> has_shape n 1 y
         \<and> SkipConn_body (SkipConn_init w b hs nl isz lm act uc) x = Inr (tmap squash y)"
proof -
  let ?sc = "SkipConn_init w b hs nl isz lm act uc"
  obtain h where h: "linear_forward (inLayer ?sc) (T2 x) = Inr h" "has_shape n hs (tmap act h)"
    using SkipConn_in_layer [OF assms(2)] by blast
  have "take nl (hidden ?sc) = hidden ?sc"
    by (simp add: SkipConn_init_def)
  with SkipConn_hidden_prefix [OF assms(1) order_refl h(2) assms(2), of act w b lm act uc]
  obtain c p where cp: "hidden_loop act (hidden ?sc) (tmap act h) (T1 []) (T2 x) = Inr (c, p)"
    "has_shape n hs c" "has_shape n hs p"
    by auto
  obtain t where t: "cat1 [c, p, T2 x] = Inr t" "has_shape n (hs + hs + isz) t"
    using cat1_triple [OF cp(2,3) assms(2)] by blast
  have t': "has_shape n (2 * hs + isz) t"
    using t(2) by (simp add: mult_2)
  have "has_shape n (in_features (outLayer ?sc)) t"
    using t(2) by (simp add: SkipConn_init_sel Linear_sel mult_2_right)
  from linear_forward_shape [OF _ this]
  obtain y where y: "linear_forward (outLayer ?sc) t = Inr y" "has_shape n 1 y"
    by (auto simp: SkipConn_init_sel Linear_sel wf_linear_Linear)
  have "SkipConn_body ?sc x = Inr (tmap squash y)"
    unfolding SkipConn_body_def h(1) by (simp add: SkipConn_init_sel(2) cp(1) t(1) y(1))
  then show ?thesis
    using h cp t(1) t' y by blast
qed

text \<open>
  Claim C4. For \<open>num_hidden_layers \<ge> 1\<close> the constructor makes the first hidden layer
  \<open>hidden_size + init_size\<close> wide and every other hidden layer and the output layer
  \<open>2 * hidden_size + init_size\<close> wide. On a batch \<open>x\<close> of \<open>init_size\<close> columns, with \<open>cur\<close> the
  activation of the input layer: the loop state before hidden layer \<open>k\<close> (the loop run on
  the first \<open>k\<close> layers) is a pair \<open>(c, p)\<close> with \<open>c\<close> the current activation and \<open>p\<close> the
  previous one, \<open>p\<close> being the empty tensor at \<open>k = 0\<close>; hidden layer \<open>k\<close> is applied to
  \<open>cat [c, p, x]\<close>, whose width is its input width; and the state after it is the activation
  of the layer's result together with \<open>c\<close> as the previous activation. After the last
  hidden layer the output layer is applied to \<open>cat [c, p, x]\<close>, of width
  \<open>2 * hidden_size + init_size\<close>, and the forward pass returns the squashing of its result.
\<close>

theorem SkipConn_layer_inputs:
  assumes "1 \<le> nl" and "wf_batch x" and "ncols x = isz"
  shows "map in_features (hidden (SkipConn_init w b hs nl isz lm act uc))
           = (hs + isz) # replicate (nl - 1) (2 * hs + isz)
       \<and> in_features (outLayer (SkipConn_init w b hs nl isz lm act uc)) = 2 * hs + isz
       \<and> activation (SkipConn_init w b hs nl isz lm act uc) = act
       \<and> (\<exists>h cur t0.
             linear_forward (inLayer (SkipConn_init w b hs nl isz lm act uc)) (T2 x) = Inr h
           \<and> cur = tmap act h
           \<and> has_shape (length (rws x)) hs cur
           \<and> cat1 [cur, T1 [], T2 x] = Inr t0
           \<and> has_shape (length (rws x)) (hs + isz) t0
           \<and> (\<forall>k. 1 \<le> k \<and> k \<le> nl \<longrightarrow>
                 (\<exists>c p t.
                    hidden_loop act (take k (hidden (SkipConn_init w b hs nl isz lm act uc)))
                      cur (T1 []) (T2 x) = Inr (c, p)
                  \<and> has_shape (length (rws x)) hs c
                  \<and> has_shape (length (rws x)) hs p
                  \<and> cat1 [c, p, T2 x] = Inr t
                  \<and> has_shape (length (rws x)) (2 * hs + isz) t))
           \<and> (\<forall>k < nl.
                 (\<exists>c p t h'.
                    hidden_loop act (take k (hidden (SkipConn_init w b hs nl isz lm act uc)))
                      cur (T1 []) (T2 x) = Inr (c, p)
                  \<and> (k = 0 \<longrightarrow> c = cur \<and> p = T1 [])
                  \<and> (0 < k \<longrightarrow> has_shape (length (rws x)) hs p)
                  \<and> has_shape (length (rws x)) hs c
                  \<and> cat1 [c, p, T2 x] = Inr t
                  \<and> has_shape (length (rws x)) (if k = 0 then hs + isz else 2 * hs + isz) t
                  \<and> in_features (hidden (SkipConn_init w b hs nl isz lm act uc) ! k)
                      = (if k = 0 then hs + isz else 2 * hs + isz)
                  \<and> linear_forward (hidden (SkipConn_init w b hs nl isz lm act uc) ! k) t
                      = Inr h'
                  \<and> hidden_loop act
                        (take (Suc k) (hidden (SkipConn_init w b hs nl isz lm act uc)))
                        cur (T1 []) (T2 x) = Inr (tmap act h', c)))
           \<and> (\<exists>c p t y.
                 hidden_loop act (hidden (SkipConn_init w b hs nl isz lm act uc))
                   cur (T1 []) (T2 x) = Inr (c, p)
               \<and> has_shape (length (rws x)) hs c
               \<and> has_shape (length (rws x)) hs p
               \<and> cat1 [c, p, T2 x] = Inr t
               \<and> has_shape (length (rws x)) (2 * hs + isz) t
               \<and> linear_forward (outLayer (SkipConn_init w b hs nl isz lm act uc)) t = Inr y
               \<and> has_shape (length (rws x)) 1 y
               \<and> SkipConn_body (SkipConn_init w b hs nl isz lm act uc) x
                   = Inr (tmap squash y)))"
proof -
  let ?sc = "SkipConn_init w b hs nl isz lm act uc"
  let ?n = "length (rws x)"
  have x: "has_shape ?n isz (T2 x)"
    using assms(2,3) by simp
  obtain j where nl: "nl = Suc j"
    using assms(1) by (cases nl) auto
  have widths: "map in_features (hidden ?sc) = (hs + isz) # replicate (nl - 1) (2 * hs + isz)"
    unfolding nl SkipConn_init_hidden_Suc
    by (simp add: Linear_sel comp_def map_replicate_const mult.commute del: upt_Suc)
  have out: "in_features (outLayer ?sc) = 2 * hs + isz"
    by (simp add: SkipConn_init_sel Linear_sel)
  have act: "activation ?sc = act"
    by (simp add: SkipConn_init_sel)
  obtain h c p t y where h: "linear_forward (inLayer ?sc) (T2 x) = Inr h"
      "has_shape ?n hs (tmap act h)"
    and final: "hidden_loop act (hidden ?sc) (tmap act h) (T1 []) (T2 x) = Inr (c, p)"
      "has_shape ?n hs c" "has_shape ?n hs p" "cat1 [c, p, T2 x] = Inr t"
      "has_shape ?n (2 * hs + isz) t" "linear_forward (outLayer ?sc) t = Inr y"
      "has_shape ?n 1 y" "SkipConn_body ?sc x = Inr (tmap squash y)"
    using SkipConn_body_steps
      [OF assms(1) x, where hs = hs and w = w and b = b and lm = lm and act = act and uc = uc]
    by blast
  obtain t0 where t0: "cat1 [tmap act h, T1 [], T2 x] = Inr t0" "has_shape ?n (hs + isz) t0"
    using cat1_first [OF h(2) x] by blast
  have loop: "\<exists>c p t. hidden_loop act (take k (hidden ?sc)) (tmap act h) (T1 []) (T2 x) = Inr (c, p)
                 \<and> has_shape ?n hs c \<and> has_shape ?n hs p
                 \<and> cat1 [c, p, T2 x] = Inr t \<and> has_shape ?n (2 * hs + isz) t"
    if k: "1 \<le> k \<and> k \<le> nl" for k
  proof -
    obtain c p where cp:
      "hidden_loop act (take k (hidden ?sc)) (tmap act h) (T1 []) (T2 x) = Inr (c, p)"
      "has_shape ?n hs c" "has_shape ?n hs p"
      using SkipConn_hidden_prefix [of k nl ?n hs "tmap act h" isz "T2 x" act w b lm act uc]
        k h(2) x by blast
    obtain t where "cat1 [c, p, T2 x] = Inr t" "has_shape ?n (hs + hs + isz) t"
      using cat1_triple [OF cp(2,3) x] by blast
    then show ?thesis
      using cp by (auto simp: mult_2)
  qed
  have step: "\<exists>c p t h'.
        hidden_loop act (take k (hidden ?sc)) (tmap act h) (T1 []) (T2 x) = Inr (c, p)
      \<and> (k = 0 \<longrightarrow> c = tmap act h \<and> p = T1 [])
      \<and> (0 < k \<longrightarrow> has_shape ?n hs p)
      \<and> has_shape ?n hs c
      \<and> cat1 [c, p, T2 x] = Inr t
      \<and> has_shape ?n (if k = 0 then hs + isz else 2 * hs + isz) t
      \<and> in_features (hidden ?sc ! k) = (if k = 0 then hs + isz else 2 * hs + isz)
      \<and> linear_forward (hidden ?sc ! k) t = Inr h'
      \<and> hidden_loop act (take (Suc k) (hidden ?sc)) (tmap act h) (T1 []) (T2 x)
          = Inr (tmap act h', c)"
    if k: "k < nl" for k
    using SkipConn_hidden_step
      [OF k x h(2), where act = act and w = w and b = b and lm = lm and a = act and uc = uc]
    by blast
  show ?thesis
    using widths out act h t0 loop step final by blast
qed

theorem SkipConn_layer_inputs_witness:
  "(1::nat) \<le> 2 \<and> wf_batch (Batch 2 [[3, 4]]) \<and> ncols (Batch 2 [[3, 4]]) = 2
   \<and> map in_features (hidden (SkipConn_init (\<lambda>k i j. 1) (\<lambda>k i. 0) 5 2 2 None LeakyReLU False))
       = [7, 12]
   \<and> in_features (outLayer (SkipConn_init (\<lambda>k i j. 1) (\<lambda>k i. 0) 5 2 2 None LeakyReLU False)) = 12
   \<and> (\<exists>h c p t y.
         linear_forward (inLayer (SkipConn_init (\<lambda>k i j. 1) (\<lambda>k i. 0) 5 2 2 None LeakyReLU False))
           (T2 (Batch 2 [[3, 4]])) = Inr h
       \<and> hidden_loop LeakyReLU
           (hidden (SkipConn_init (\<lambda>k i j. 1) (\<lambda>k i. 0) 5 2 2 None LeakyReLU False))
           (tmap LeakyReLU h) (T1 []) (T2 (Batch 2 [[3, 4]])) = Inr (c, p)
       \<and> cat1 [c, p, T2 (Batch 2 [[3, 4]])] = Inr t
       \<and> has_shape 1 12 t
       \<and> linear_forward (outLayer (SkipConn_init (\<lambda>k i j. 1) (\<lambda>k i. 0) 5 2 2 None LeakyReLU False))
           t = Inr y
       \<and> SkipConn_body (SkipConn_init (\<lambda>k i j. 1) (\<lambda>k i. 0) 5 2 2 None LeakyReLU False)
           (Batch 2 [[3, 4]]) = Inr (tmap squash y))"
proof -
  let ?sc = "SkipConn_init (\<lambda>k i j. 1) (\<lambda>k i. 0) 5 2 2 None LeakyReLU False"
  let ?x = "Batch 2 [[3, 4]]"
  have h: "(1::nat) \<le> 2" "wf_batch ?x" "ncols ?x = 2"
    by (simp_all add: wf_batch_def)
  note inst = SkipConn_layer_inputs [OF h, of "\<lambda>k i j. 1" "\<lambda>k i. 0" 5 None LeakyReLU False]
  have w: "map in_features (hidden ?sc) = (5 + 2) # replicate (2 - 1) (2 * 5 + 2)"
    and o: "in_features (outLayer ?sc) = 2 * 5 + 2"
    using inst by blast+
  obtain h0 c p t y where
    "linear_forward (inLayer ?sc) (T2 ?x) = Inr h0"
    "hidden_loop LeakyReLU (hidden ?sc) (tmap LeakyReLU h0) (T1 []) (T2 ?x) = Inr (c, p)"
    "cat1 [c, p, T2 ?x] = Inr t"
    "has_shape (length (rws ?x)) (2 * 5 + 2) t"
    "linear_forward (outLayer ?sc) t = Inr y"
    "SkipConn_body ?sc ?x = Inr (tmap squash y)"
    using inst by blast
  then have "\<exists>h c p t y.
         linear_forward (inLayer ?sc) (T2 ?x) = Inr h
       \<and> hidden_loop LeakyReLU (hidden ?sc) (tmap LeakyReLU h) (T1 []) (T2 ?x) = Inr (c, p)
       \<and> cat1 [c, p, T2 ?x] = Inr t
       \<and> has_shape 1 12 t
       \<and> linear_forward (outLayer ?sc) t = Inr y
       \<and> SkipConn_body ?sc ?x = Inr (tmap squash y)"
    by (intro exI [of _ h0] exI [of _ c] exI [of _ p] exI [of _ t] exI [of _ y]) simp
  moreover have "map in_features (hidden ?sc) = [7, 12]"
    using w by (simp add: numeral_2_eq_2)
  moreover have "in_features (outLayer ?sc) = 12"
    using o by simp
  ultimately show ?thesis
    using h by (simp only: simp_thms)
qed

section \<open>Concatenating batches\<close>

lemma those_as2d: "those (map (as2d \<circ> T2) bs) = Some bs"
  by (induction bs) simp_all

lemma filter_skip_T2: "filter (\<lambda>t. \<not> cat_should_skip t) (map T2 bs) = map T2 bs"
  by (induction bs) simp_all

lemma cat1_batches:
  assumes "list_all (\<lambda>y. length (rws y) = length (rws x)) bs"
  shows "cat1 (map T2 (x # bs))
         = Inr (T2 (Batch (ncols x + sum_list (map ncols bs)) (foldl hcat (rws x) (map rws bs))))"
  using assms by (simp add: cat1_def filter_skip_T2 those_as2d)

text \<open>
  A concatenation whose first tensor is a batch is a batch or a fault: the conversion
  \<open>to_batch\<close> in \<open>Fourier2D_forward\<close> and \<open>Taylor_forward\<close> never faults.
\<close>

lemma cat1_batch_first:
  assumes "cat1 (T2 x # ts) = Inr t"
  shows "\<exists>y. t = T2 y"
  using assms by (auto simp: cat1_def split: option.splits if_splits)

lemma to_batch_cat1:
  assumes "cat1 (T2 x # ts) = Inr t"
  shows "\<exists>y. to_batch t = Inr y \<and> t = T2 y"
  using cat1_batch_first [OF assms] by auto

lemma hcat_map: "hcat (map f xs) (map g xs) = map (\<lambda>r. f r @ g r) xs"
  by (simp add: hcat_def zip_map_map zip_same_conv_map)

lemma foldl_hcat_map:
  "foldl hcat (map f xs) (map (\<lambda>g. map g xs) gs) = map (\<lambda>r. f r @ concat (map (\<lambda>g. g r) gs)) xs"
proof (induction gs arbitrary: f)
  case Nil
  then show ?case by simp
next
  case (Cons g gs)
  have "foldl hcat (map f xs) (map (\<lambda>g. map g xs) (g # gs))
        = foldl hcat (map (\<lambda>r. f r @ g r) xs) (map (\<lambda>g. map g xs) gs)"
    by (simp add: hcat_map)
  also have "\<dots> = map (\<lambda>r. (f r @ g r) @ concat (map (\<lambda>g. g r) gs)) xs"
    by (rule Cons.IH)
  finally show ?case by simp
qed

section \<open>Taylor: the expansion and the claims\<close>

lemma Taylor_features_rows:
  "Taylor_features order x
   = Inr (T2 (Batch (ncols x * (order + 1))
               (map (\<lambda>r. r @ concat (map (\<lambda>n. map (\<lambda>v. v ^ n) r) [1..<order + 1])) (rws x))))"
proof -
  let ?ps = "map (pow_batch x) [1..<order + 1]"
  have same: "list_all (\<lambda>y. length (rws y) = length (rws x)) ?ps"
    by (simp add: list_all_iff pow_batch_def)
  have cols: "ncols x + sum_list (map ncols ?ps) = ncols x * (order + 1)"
    by (simp add: comp_def pow_batch_def sum_list_triv del: upt_Suc)
  let ?gs = "map (\<lambda>n r. map (\<lambda>v. v ^ n) r) [1..<order + 1]"
  have "map rws ?ps = map (\<lambda>g. map g (rws x)) ?gs"
    by (simp add: pow_batch_def comp_def del: upt_Suc)
  then have "foldl hcat (rws x) (map rws ?ps)
      = foldl hcat (map (\<lambda>r. r) (rws x)) (map (\<lambda>g. map g (rws x)) ?gs)"
    by (simp only: map_ident)
  also have "\<dots> = map (\<lambda>r. r @ concat (map (\<lambda>g. g r) ?gs)) (rws x)"
    by (rule foldl_hcat_map)
  also have "\<dots> = map (\<lambda>r. r @ concat (map (\<lambda>n. map (\<lambda>v. v ^ n) r) [1..<order + 1])) (rws x)"
    by (simp add: comp_def del: upt_Suc)
  finally have rows: "foldl hcat (rws x) (map rws ?ps)
      = map (\<lambda>r. r @ concat (map (\<lambda>n. map (\<lambda>v. v ^ n) r) [1..<order + 1])) (rws x)" .
  show ?thesis
    unfolding Taylor_features_def cat1_batches [OF same] cols rows ..
qed

lemma Taylor_init_sel:
  "taylor_order (Taylor_init w b gelu order hs nl lm) = order"
  "t_linmap (Taylor_init w b gelu order hs nl lm) = lm"
  "t_inner_model (Taylor_init w b gelu order hs nl lm)
     = SkipConn_init w b hs nl (order * 2 + 2) None gelu True"
  by (simp_all add: Taylor_init_def)

text \<open>
  Claim C7. With \<open>taylor_order = 0\<close> the expansion is the identity: the feature tensor is
  the batch itself, column count and entries unchanged, the inner SkipConn is built for
  width 2, and forward is the inner forward on the batch (on the mapped batch when a
  linear map is configured).
\<close>

theorem Taylor_order_0_identity:
  "Taylor_features 0 x = Inr (T2 x)
   \<and> in_features (inLayer (t_inner_model (Taylor_init w b gelu 0 hs nl lm))) = 2
   \<and> snd (Taylor_forward (Taylor_init w b gelu 0 hs nl None) x)
       = snd (SkipConn_forward (t_inner_model (Taylor_init w b gelu 0 hs nl None)) x)
   \<and> snd (Taylor_forward (Taylor_init w b gelu 0 hs nl lm) x)
       = (case snd (apply_linmap lm x) of
            Inl e \<Rightarrow> Inl e
          | Inr x' \<Rightarrow> snd (SkipConn_forward (t_inner_model (Taylor_init w b gelu 0 hs nl lm)) x'))"
proof -
  have id: "Taylor_features 0 y = Inr (T2 y)" for y
    by (simp add: Taylor_features_rows)
  have fwd: "snd (Taylor_forward (Taylor_init w b gelu 0 hs nl l) x)
       = (case snd (apply_linmap l x) of
            Inl e \<Rightarrow> Inl e
          | Inr x' \<Rightarrow> snd (SkipConn_forward (t_inner_model (Taylor_init w b gelu 0 hs nl l)) x'))"
    for l
    by (simp add: Taylor_forward_def Let_def Taylor_init_sel id split: sum.splits)
  show ?thesis
    using id fwd [of lm] fwd [of None]
    by (simp add: Taylor_init_sel SkipConn_init_sel Linear_sel)
qed

theorem Taylor_order_0_identity_witness:
  "Taylor_features 0 (Batch 2 [[3, 4], [5, 6]]) = Inr (T2 (Batch 2 [[3, 4], [5, 6]]))"
  using Taylor_order_0_identity [of "Batch 2 [[3, 4], [5, 6]]"] by simp



section \<open>Fourier2D: the expansion at order 1\<close>






section \<open>Fourier: the expansion\<close>

lemma map2_map_map:
  "map2 (map2 (@)) (map (map f) xs) (map (map g) xs) = map (map (\<lambda>v. f v @ g v)) xs"
  by (simp add: zip_map_map zip_same_conv_map comp_def)

lemma bcast3_unsqueeze:
  "bcast3 (*) orders (unsqueeze_last x)
   = Inr (T3 (ncols x) (length orders) (map (map (\<lambda>v. map (\<lambda>k. k * v) orders)) (rws x)))"
proof (cases "length orders = 1")
  case True
  then obtain k where "orders = [k]"
    by (cases orders) auto
  then show ?thesis
    by (simp add: bcast3_def unsqueeze_last_def comp_def)
next
  case False
  then show ?thesis
    by (simp add: bcast3_def unsqueeze_last_def comp_def)
qed

lemma Fourier_features_rows:
  assumes "rws x \<noteq> []"
  shows "Fourier_features orders x
         = Inr (Batch (ncols x * (2 * length orders + 1))
                  (map (\<lambda>r. concat (map (\<lambda>v. map (\<lambda>k. sin (k * v)) orders
                                              @ map (\<lambda>k. cos (k * v)) orders @ [v]) r))
                       (rws x)))"
proof -
  let ?s = "\<lambda>v. map (\<lambda>k. sin (k * v)) orders"
  let ?c = "\<lambda>v. map (\<lambda>k. cos (k * v)) orders"
  let ?ox = "T3 (ncols x) (length orders) (map (map (\<lambda>v. map (\<lambda>k. k * v) orders)) (rws x))"
  have s: "tmap3 sin ?ox = T3 (ncols x) (length orders) (map (map ?s) (rws x))"
    and c: "tmap3 cos ?ox = T3 (ncols x) (length orders) (map (map ?c) (rws x))"
    by (simp_all add: tmap3_def comp_def)
  have x3: "unsqueeze_last x = T3 (ncols x) 1 (map (map (\<lambda>v. [v])) (rws x))"
    by (simp add: unsqueeze_last_def)
  have cat: "cat_last [tmap3 sin ?ox, tmap3 cos ?ox, unsqueeze_last x]
        = Inr (T3 (ncols x) (2 * length orders + 1)
                 (map (map (\<lambda>v. ?s v @ ?c v @ [v])) (rws x)))"
    unfolding s c x3 by (simp add: cat_last_def map2_map_map)
  show ?thesis
    unfolding Fourier_features_def Let_def bcast3_unsqueeze
    using assms by (simp add: cat view_rows_def comp_def)
qed

lemma Fourier_features_empty:
  assumes "rws x = []"
  shows "Fourier_features orders x = Inl AmbiguousView"
proof -
  have "bcast3 (*) orders (unsqueeze_last x) = Inr (T3 (ncols x) (length orders) [])"
    using assms by (simp add: bcast3_unsqueeze)
  then show ?thesis
    using assms
    by (simp add: Fourier_features_def Let_def tmap3_def cat_last_def unsqueeze_last_def
        view_rows_def)
qed

lemma Fourier_features_shape:
  assumes "wf_batch x" "rws x \<noteq> []"
  shows "\<exists>ff. Fourier_features orders x = Inr ff
            \<and> has_shape (length (rws x)) (ncols x * (2 * length orders + 1)) (T2 ff)"
proof -
  let ?F = "\<lambda>v. map (\<lambda>k. sin (k * v)) orders @ map (\<lambda>k. cos (k * v)) orders @ [v]"
  have len: "length (concat (map ?F r)) = length r * (2 * length orders + 1)" for r
    by (induction r) simp_all
  have "length (concat (map ?F r)) = ncols x * (2 * length orders + 1)" if "r \<in> set (rws x)" for r
    using assms(1) that unfolding len by (simp add: wf_batch_def list_all_iff)
  then show ?thesis
    unfolding Fourier_features_rows [OF assms(2)]
    by (simp add: wf_batch_def list_all_iff)
qed

lemma Fourier_init_sel:
  "fourier_order (Fourier_init w b order hs nl lm uc) = order"
  "f_inner_model (Fourier_init w b order hs nl lm uc)
     = SkipConn_init w b hs nl (order * 4 + 2) None LeakyReLU uc"
  "f_linmap (Fourier_init w b order hs nl lm uc) = lm"
  "f_orders (Fourier_init w b order hs nl lm uc) = map real [1..<order + 1]"
  by (simp_all add: Fourier_init_def)

lemma SkipConn_forward_no_linmap:
  "sc_linmap sc = None \<Longrightarrow> SkipConn_forward sc x = (sc, SkipConn_body sc x)"
  by (simp add: SkipConn_forward_def)

lemma Fourier_forward_snd:
  "snd (Fourier_forward (Fourier_init w b order hs nl lm uc) x)
   = (case snd (apply_linmap lm x) of
        Inl e \<Rightarrow> Inl e
      | Inr x' \<Rightarrow>
          (case Fourier_features (map real [1..<order + 1]) x' of
             Inl e \<Rightarrow> Inl e
           | Inr ff \<Rightarrow> SkipConn_body (SkipConn_init w b hs nl (order * 4 + 2) None LeakyReLU uc) ff))"
  by (simp add: Fourier_forward_def Let_def Fourier_init_sel SkipConn_forward_no_linmap
      SkipConn_init_sel split: sum.splits del: upt_Suc)

section \<open>Fourier: when forward succeeds\<close>

lemma linmap_result_ok:
  assumes "wf_batch x" "length ms = 2" "length bs = 2" "ncols x = 2 \<or> ncols x = 1"
  shows "\<exists>x'. (case bcast (*) ms x of Inl e \<Rightarrow> Inl e | Inr mx \<Rightarrow> bcast (\<lambda>bi a. a + bi) bs mx) = Inr x'
            \<and> wf_batch x' \<and> ncols x' = 2 \<and> length (rws x') = length (rws x)"
proof (cases "ncols x = 2")
  case True
  show ?thesis
    unfolding map_on_pairs [OF assms(1) True assms(2,3)]
    by (simp add: wf_batch_def list_all_iff)
next
  case False
  then have one: "ncols x = 1"
    using assms(4) by simp
  have "bcast (*) ms x = Inr (Batch 2 (map (\<lambda>r. map (\<lambda>a. a * hd r) ms) (rws x)))"
    using one assms(2) by (simp add: bcast_def)
  then show ?thesis
    using assms(2,3) by (simp add: bcast_def wf_batch_def list_all_iff)
qed

lemma linmap_result_fault:
  assumes "length ms = 2" "ncols x \<noteq> 2" "ncols x \<noteq> 1"
  shows "(case bcast (*) ms x of Inl e \<Rightarrow> Inl e | Inr mx \<Rightarrow> bcast (\<lambda>bi a. a + bi) bs mx)
         = Inl ShapeMismatch"
  using assms by (simp add: bcast_def)

lemma CenteredLinearMap_init_lengths:
  assumes "CenteredLinearMap_init xmin xmax ymin ymax x_size y_size use_cuda = Inr lm"
  shows "length (vals (lm_m lm)) = 2 \<and> length (vals (lm_b lm)) = 2"
  using assms
  by (auto simp: CenteredLinearMap_init_def Let_def split: sum.splits)

lemma vals_place: "vals (lm_m (place lm)) = vals (lm_m lm)" "vals (lm_b (place lm)) = vals (lm_b lm)"
  by (simp_all add: place_def cuda_def)

lemma apply_linmap_Some:
  "snd (apply_linmap (Some lm) x)
   = (case bcast (*) (vals (lm_m lm)) x of
        Inl e \<Rightarrow> Inl e
      | Inr mx \<Rightarrow> bcast (\<lambda>bi a. a + bi) (vals (lm_b lm)) mx)"
  unfolding apply_linmap.simps CenteredLinearMap_map_def Let_def snd_conv vals_place ..

lemma Fourier_after_map:
  assumes "1 \<le> nl" "wf_batch x" "rws x \<noteq> []"
  shows "ncols x = 2 \<Longrightarrow>
           \<exists>y. (case Fourier_features (map real [1..<order + 1]) x of
                   Inl e \<Rightarrow> Inl e
                 | Inr ff \<Rightarrow> SkipConn_body (SkipConn_init w b hs nl (order * 4 + 2) lm act uc) ff)
                = Inr y \<and> has_shape (length (rws x)) 1 y"
    and "ncols x \<noteq> 2 \<Longrightarrow>
           (case Fourier_features (map real [1..<order + 1]) x of
              Inl e \<Rightarrow> Inl e
            | Inr ff \<Rightarrow> SkipConn_body (SkipConn_init w b hs nl (order * 4 + 2) lm act uc) ff)
           = Inl ShapeMismatch"
proof -
  obtain ff where ff: "Fourier_features (map real [1..<order + 1]) x = Inr ff"
    "has_shape (length (rws x)) (ncols x * (2 * order + 1)) (T2 ff)"
    using Fourier_features_shape [OF assms(2,3), of "map real [1..<order + 1]"]
    by (auto simp del: upt_Suc)
  show "\<exists>y. (case Fourier_features (map real [1..<order + 1]) x of
                   Inl e \<Rightarrow> Inl e
                 | Inr ff \<Rightarrow> SkipConn_body (SkipConn_init w b hs nl (order * 4 + 2) lm act uc) ff)
                = Inr y \<and> has_shape (length (rws x)) 1 y"
    if "ncols x = 2"
  proof -
    have "has_shape (length (rws x)) (order * 4 + 2) (T2 ff)"
      using ff(2) that by (simp add: algebra_simps)
    from SkipConn_body_ok [OF assms(1) this]
    show ?thesis
      unfolding ff(1) by simp
  qed
  show "(case Fourier_features (map real [1..<order + 1]) x of
              Inl e \<Rightarrow> Inl e
            | Inr ff \<Rightarrow> SkipConn_body (SkipConn_init w b hs nl (order * 4 + 2) lm act uc) ff)
           = Inl ShapeMismatch"
    if "ncols x \<noteq> 2"
  proof -
    have "ncols x * (2 * order + 1) \<noteq> 2 * (2 * order + 1)"
      using that by (simp only: mult_cancel2) simp
    then have "ncols ff \<noteq> order * 4 + 2"
      using ff(2) by simp
    from SkipConn_body_width [OF this]
    show ?thesis
      unfolding ff(1) by simp
  qed
qed

section \<open>Fourier: the claims\<close>

text \<open>
  Claim C5, amended to batches with at least one row. The frequencies are the integers
  \<open>1..K\<close> and the inner SkipConn is built for width \<open>4 * K + 2\<close>. On a batch of 2 columns
  with at least one row, the expansion succeeds with \<open>4 * K + 2\<close> columns; every row holds,
  for each of its two entries \<open>v\<close> in turn, \<open>sin (k * v)\<close> for \<open>k = 1..K\<close>, then \<open>cos (k * v)\<close>
  for \<open>k = 1..K\<close>, then \<open>v\<close>; and forward is the inner forward on that feature batch (after
  the linear map, when one is configured).
\<close>

theorem Fourier_expansion:
  assumes "wf_batch x" and "ncols x = 2" and "rws x \<noteq> []"
  shows "f_orders (Fourier_init w b K hs nl lm uc) = map real [1..<K + 1]
       \<and> in_features (inLayer (f_inner_model (Fourier_init w b K hs nl lm uc))) = 4 * K + 2
       \<and> (\<exists>ff. Fourier_features (f_orders (Fourier_init w b K hs nl lm uc)) x = Inr ff
               \<and> ff = Batch (4 * K + 2)
                        (map (\<lambda>r. concat (map (\<lambda>v. map (\<lambda>k. sin (real k * v)) [1..<K + 1]
                                                   @ map (\<lambda>k. cos (real k * v)) [1..<K + 1] @ [v]) r))
                             (rws x))
               \<and> wf_batch ff
               \<and> snd (Fourier_forward (Fourier_init w b K hs nl None uc) x)
                   = snd (SkipConn_forward (f_inner_model (Fourier_init w b K hs nl None uc)) ff))
       \<and> snd (Fourier_forward (Fourier_init w b K hs nl lm uc) x)
           = (case snd (apply_linmap lm x) of
                Inl e \<Rightarrow> Inl e
              | Inr x' \<Rightarrow>
                  (case Fourier_features (f_orders (Fourier_init w b K hs nl lm uc)) x' of
                     Inl e \<Rightarrow> Inl e
                   | Inr ff \<Rightarrow>
                       snd (SkipConn_forward (f_inner_model (Fourier_init w b K hs nl lm uc)) ff)))"
proof -
  let ?orders = "map real [1..<K + 1]"
  let ?ff = "Batch (4 * K + 2)
               (map (\<lambda>r. concat (map (\<lambda>v. map (\<lambda>k. sin (real k * v)) [1..<K + 1]
                                          @ map (\<lambda>k. cos (real k * v)) [1..<K + 1] @ [v]) r))
                    (rws x))"
  have feat: "Fourier_features ?orders x = Inr ?ff"
    unfolding Fourier_features_rows [OF assms(3)] using assms(2)
    by (simp add: comp_def del: upt_Suc)
  obtain ff' where ff': "Fourier_features ?orders x = Inr ff'"
    "has_shape (length (rws x)) (ncols x * (2 * length ?orders + 1)) (T2 ff')"
    using Fourier_features_shape [OF assms(1,3)] by blast
  have eq: "?ff = ff'"
    using ff'(1) unfolding feat by (rule Inr_inject)
  have wf: "wf_batch ?ff"
    unfolding eq using ff'(2) by simp
  have inner: "SkipConn_forward (SkipConn_init w b hs nl (K * 4 + 2) None LeakyReLU uc) y
      = (SkipConn_init w b hs nl (K * 4 + 2) None LeakyReLU uc,
         SkipConn_body (SkipConn_init w b hs nl (K * 4 + 2) None LeakyReLU uc) y)" for y
    by (rule SkipConn_forward_no_linmap) (simp add: SkipConn_init_sel)
  have fwd: "snd (Fourier_forward (Fourier_init w b K hs nl l uc) x)
           = (case snd (apply_linmap l x) of
                Inl e \<Rightarrow> Inl e
              | Inr x' \<Rightarrow>
                  (case Fourier_features (f_orders (Fourier_init w b K hs nl l uc)) x' of
                     Inl e \<Rightarrow> Inl e
                   | Inr ff \<Rightarrow>
                       snd (SkipConn_forward (f_inner_model (Fourier_init w b K hs nl l uc)) ff)))"
    for l
    unfolding Fourier_forward_snd Fourier_init_sel inner snd_conv ..
  have none: "snd (Fourier_forward (Fourier_init w b K hs nl None uc) x)
      = snd (SkipConn_forward (f_inner_model (Fourier_init w b K hs nl None uc)) ?ff)"
    unfolding fwd [of None] Fourier_init_sel
    by (simp only: apply_linmap.simps snd_conv sum.case feat)
  have width: "in_features (inLayer (f_inner_model (Fourier_init w b K hs nl lm uc))) = 4 * K + 2"
    by (simp add: Fourier_init_sel SkipConn_init_sel Linear_sel)
  show ?thesis
    using feat wf none width fwd [of lm] unfolding Fourier_init_sel by blast
qed

theorem Fourier_expansion_witness:
  "wf_batch (Batch 2 [[0, 0]]) \<and> ncols (Batch 2 [[0, 0]]) = 2 \<and> rws (Batch 2 [[0, 0]]) \<noteq> []
   \<and> Fourier_features (f_orders (Fourier_init (\<lambda>k i j. 0) (\<lambda>k i. 0) 2 1 1 None False))
       (Batch 2 [[0, 0]])
     = Inr (Batch 10 [[0, 0, 1, 1, 0, 0, 0, 1, 1, 0]])"
proof -
  have h: "wf_batch (Batch 2 [[0, 0]])" "ncols (Batch 2 [[0, 0]]) = 2" "rws (Batch 2 [[0, 0]]) \<noteq> []"
    by (simp_all add: wf_batch_def)
  have "[1..<2 + 1] = [1, 2]"
    by (simp add: upt_rec)
  moreover obtain ff where
    "Fourier_features (f_orders (Fourier_init (\<lambda>k i j. 0) (\<lambda>k i. 0) 2 1 1 None False))
       (Batch 2 [[0, 0]]) = Inr ff"
    "ff = Batch (4 * 2 + 2)
            (map (\<lambda>r. concat (map (\<lambda>v. map (\<lambda>k. sin (real k * v)) [1..<2 + 1]
                                       @ map (\<lambda>k. cos (real k * v)) [1..<2 + 1] @ [v]) r))
                 (rws (Batch 2 [[0, 0]])))"
    using Fourier_expansion [OF h, of "\<lambda>k i j. 0" "\<lambda>k i. 0" 2 1 1 None False] by blast
  ultimately show ?thesis
    using h by simp
qed

text \<open>
  Claim C5 as stated, for every batch of 2 columns, fails on the batch with no row: the
  flattening \<^verbatim>\<open>view(x.shape[0], -1)\<close> raises, so no feature vector reaches the inner model.
\<close>

theorem Fourier_empty_batch_faults:
  "Fourier_features (f_orders (Fourier_init (\<lambda>k i j. 0) (\<lambda>k i. 0) 1 1 1 None False)) (Batch 2 [])
     = Inl AmbiguousView
   \<and> snd (Fourier_forward (Fourier_init (\<lambda>k i j. 0) (\<lambda>k i. 0) 1 1 1 None False) (Batch 2 []))
     = Inl AmbiguousView"
  by (simp add: Fourier_forward_snd Fourier_features_empty del: upt_Suc)

text \<open>
  Claim C9, amended. With at least one hidden layer and a batch with at least one row, of
  \<open>D\<close> columns, the inner SkipConn is built for width \<open>4 * K + 2\<close>. Without a linear map,
  forward flattens the expansion of the batch to \<open>D * (2 * K + 1)\<close> columns and passes it to
  the inner model; it succeeds exactly when \<open>D = 2\<close>, and raises the shape fault for every
  other \<open>D\<close>. With a linear map from \<open>CenteredLinearMap_init\<close>, whose two-entry scale
  broadcasts a single column to two: for \<open>D = 2\<close> or \<open>D = 1\<close> the mapped batch has 2 columns,
  forward flattens its expansion to \<open>4 * K + 2\<close> columns and succeeds; for every other \<open>D\<close>
  the map raises the shape fault and so does forward.
\<close>

theorem Fourier_forward_succeeds_iff:
  assumes "1 \<le> nl" and "wf_batch x" and "rws x \<noteq> []"
  shows "in_features (inLayer (f_inner_model (Fourier_init w b K hs nl lm uc))) = 4 * K + 2
       \<and> (\<exists>ff. Fourier_features (f_orders (Fourier_init w b K hs nl None uc)) x = Inr ff
               \<and> ncols ff = ncols x * (2 * K + 1)
               \<and> snd (Fourier_forward (Fourier_init w b K hs nl None uc) x)
                   = snd (SkipConn_forward (f_inner_model (Fourier_init w b K hs nl None uc)) ff))
       \<and> ((\<exists>y. snd (Fourier_forward (Fourier_init w b K hs nl None uc) x) = Inr y)
            \<longleftrightarrow> ncols x = 2)
       \<and> (ncols x \<noteq> 2 \<longrightarrow>
            snd (Fourier_forward (Fourier_init w b K hs nl None uc) x) = Inl ShapeMismatch)
       \<and> (CenteredLinearMap_init xmin xmax ymin ymax x_size y_size uc' = Inr m \<longrightarrow>
            (ncols x = 2 \<or> ncols x = 1 \<longrightarrow>
               (\<exists>x' ff.
                   snd (CenteredLinearMap_map m x) = Inr x'
                 \<and> ncols x' = 2
                 \<and> length (rws x') = length (rws x)
                 \<and> Fourier_features (f_orders (Fourier_init w b K hs nl (Some m) uc)) x' = Inr ff
                 \<and> ncols ff = 4 * K + 2
                 \<and> snd (Fourier_forward (Fourier_init w b K hs nl (Some m) uc) x)
                     = snd (SkipConn_forward
                              (f_inner_model (Fourier_init w b K hs nl (Some m) uc)) ff)))
          \<and> ((\<exists>y. snd (Fourier_forward (Fourier_init w b K hs nl (Some m) uc) x) = Inr y)
              \<longleftrightarrow> ncols x = 2 \<or> ncols x = 1)
          \<and> (ncols x \<noteq> 2 \<and> ncols x \<noteq> 1 \<longrightarrow>
                snd (CenteredLinearMap_map m x) = Inl ShapeMismatch
              \<and> snd (Fourier_forward (Fourier_init w b K hs nl (Some m) uc) x)
                  = Inl ShapeMismatch))"
proof -
  let ?orders = "map real [1..<K + 1]"
  let ?inner = "SkipConn_init w b hs nl (K * 4 + 2) None LeakyReLU uc"
  let ?body = "\<lambda>x'. case Fourier_features ?orders x' of
                        Inl e \<Rightarrow> Inl e
                      | Inr ff \<Rightarrow> SkipConn_body ?inner ff"
  have width: "in_features (inLayer (f_inner_model (Fourier_init w b K hs nl lm uc))) = 4 * K + 2"
    by (simp add: Fourier_init_sel SkipConn_init_sel Linear_sel)
  have inner: "snd (SkipConn_forward ?inner ff) = SkipConn_body ?inner ff" for ff
    by (simp add: SkipConn_forward_no_linmap SkipConn_init_sel)
  have feat: "\<exists>ff. Fourier_features ?orders y = Inr ff \<and> ncols ff = ncols y * (2 * K + 1)
                \<and> ?body y = snd (SkipConn_forward ?inner ff)"
    if "rws y \<noteq> []" for y
    unfolding Fourier_features_rows [OF that] inner by simp
  have none: "snd (Fourier_forward (Fourier_init w b K hs nl None uc) x) = ?body x"
    unfolding Fourier_forward_snd by simp
  have none_feat: "\<exists>ff. Fourier_features (f_orders (Fourier_init w b K hs nl None uc)) x = Inr ff
               \<and> ncols ff = ncols x * (2 * K + 1)
               \<and> snd (Fourier_forward (Fourier_init w b K hs nl None uc) x)
                   = snd (SkipConn_forward (f_inner_model (Fourier_init w b K hs nl None uc)) ff)"
    unfolding none Fourier_init_sel by (rule feat [OF assms(3)])
  have none_ok: "\<exists>y. snd (Fourier_forward (Fourier_init w b K hs nl None uc) x) = Inr y"
    if "ncols x = 2"
    unfolding none using Fourier_after_map(1) [OF assms that] by blast
  have none_fault: "snd (Fourier_forward (Fourier_init w b K hs nl None uc) x) = Inl ShapeMismatch"
    if "ncols x \<noteq> 2"
    unfolding none by (rule Fourier_after_map(2) [OF assms that])
  have map_snd: "snd (apply_linmap (Some m) x) = snd (CenteredLinearMap_map m x)"
    by simp
  have some_feat: "\<exists>x' ff.
         snd (CenteredLinearMap_map m x) = Inr x'
       \<and> ncols x' = 2
       \<and> length (rws x') = length (rws x)
       \<and> Fourier_features (f_orders (Fourier_init w b K hs nl (Some m) uc)) x' = Inr ff
       \<and> ncols ff = 4 * K + 2
       \<and> snd (Fourier_forward (Fourier_init w b K hs nl (Some m) uc) x)
           = snd (SkipConn_forward (f_inner_model (Fourier_init w b K hs nl (Some m) uc)) ff)"
    and some_ok: "\<exists>y. snd (Fourier_forward (Fourier_init w b K hs nl (Some m) uc) x) = Inr y"
    if m: "CenteredLinearMap_init xmin xmax ymin ymax x_size y_size uc' = Inr m"
      and d: "ncols x = 2 \<or> ncols x = 1"
  proof -
    have len: "length (vals (lm_m m)) = 2" "length (vals (lm_b m)) = 2"
      using CenteredLinearMap_init_lengths [OF m] by simp_all
    obtain x' where x': "snd (apply_linmap (Some m) x) = Inr x'" "wf_batch x'" "ncols x' = 2"
      "length (rws x') = length (rws x)"
      unfolding apply_linmap_Some using linmap_result_ok [OF assms(2) len d] by blast
    have ne: "rws x' \<noteq> []"
      using x'(4) assms(3) by auto
    have fwd: "snd (Fourier_forward (Fourier_init w b K hs nl (Some m) uc) x) = ?body x'"
      unfolding Fourier_forward_snd x'(1) sum.case ..
    obtain ff where ff: "Fourier_features ?orders x' = Inr ff" "ncols ff = ncols x' * (2 * K + 1)"
      "?body x' = snd (SkipConn_forward ?inner ff)"
      using feat [OF ne] by blast
    have "ncols ff = 4 * K + 2"
      unfolding ff(2) x'(3) by simp
    then show "\<exists>x' ff.
         snd (CenteredLinearMap_map m x) = Inr x'
       \<and> ncols x' = 2
       \<and> length (rws x') = length (rws x)
       \<and> Fourier_features (f_orders (Fourier_init w b K hs nl (Some m) uc)) x' = Inr ff
       \<and> ncols ff = 4 * K + 2
       \<and> snd (Fourier_forward (Fourier_init w b K hs nl (Some m) uc) x)
           = snd (SkipConn_forward (f_inner_model (Fourier_init w b K hs nl (Some m) uc)) ff)"
      unfolding Fourier_init_sel fwd using x'(1,3,4) ff(1,3) unfolding map_snd by blast
    from Fourier_after_map(1) [OF assms(1) x'(2) ne x'(3)]
    show "\<exists>y. snd (Fourier_forward (Fourier_init w b K hs nl (Some m) uc) x) = Inr y"
      unfolding fwd by blast
  qed
  have some_fault:
    "snd (CenteredLinearMap_map m x) = Inl ShapeMismatch
     \<and> snd (Fourier_forward (Fourier_init w b K hs nl (Some m) uc) x) = Inl ShapeMismatch"
    if m: "CenteredLinearMap_init xmin xmax ymin ymax x_size y_size uc' = Inr m"
      and d: "ncols x \<noteq> 2 \<and> ncols x \<noteq> 1"
  proof -
    have len: "length (vals (lm_m m)) = 2"
      using CenteredLinearMap_init_lengths [OF m] by simp
    have f: "snd (apply_linmap (Some m) x) = Inl ShapeMismatch"
      unfolding apply_linmap_Some using linmap_result_fault [OF len] d by blast
    then have "snd (Fourier_forward (Fourier_init w b K hs nl (Some m) uc) x) = Inl ShapeMismatch"
      unfolding Fourier_forward_snd by simp
    then show ?thesis
      using f unfolding map_snd by simp
  qed
  have none_iff: "(\<exists>y. snd (Fourier_forward (Fourier_init w b K hs nl None uc) x) = Inr y)
      \<longleftrightarrow> ncols x = 2"
    using none_ok none_fault by (cases "ncols x = 2") auto
  have some_iff: "(\<exists>y. snd (Fourier_forward (Fourier_init w b K hs nl (Some m) uc) x) = Inr y)
      \<longleftrightarrow> ncols x = 2 \<or> ncols x = 1"
    if "CenteredLinearMap_init xmin xmax ymin ymax x_size y_size uc' = Inr m"
    using some_ok [OF that] some_fault [OF that] by (cases "ncols x = 2 \<or> ncols x = 1") auto
  show ?thesis
    using width none_feat none_iff none_fault some_feat some_iff some_fault by blast
qed

theorem Fourier_forward_succeeds_iff_witness:
  "(1::nat) \<le> 1 \<and> wf_batch (Batch 2 [[0, 0]]) \<and> rws (Batch 2 [[0, 0]]) \<noteq> []
   \<and> ncols (Batch 2 [[0, 0]]) = 2
   \<and> (\<exists>y. snd (Fourier_forward (Fourier_init (\<lambda>k i j. 0) (\<lambda>k i. 0) 3 1 1 None False)
                  (Batch 2 [[0, 0]])) = Inr y)"
proof -
  have h: "(1::nat) \<le> 1" "wf_batch (Batch 2 [[0, 0]])" "rws (Batch 2 [[0, 0]]) \<noteq> []"
    by (simp_all add: wf_batch_def)
  have "(\<exists>y. snd (Fourier_forward (Fourier_init (\<lambda>k i j. 0) (\<lambda>k i. 0) 3 1 1 None False)
                  (Batch 2 [[0, 0]])) = Inr y) \<longleftrightarrow> ncols (Batch 2 [[0, 0]]) = 2"
    using Fourier_forward_succeeds_iff [OF h, of "\<lambda>k i j. 0" "\<lambda>k i. 0" 3 1 None False]
    by blast
  then show ?thesis
    using h by simp
qed

text \<open>
  Claim C9 as stated fails in both directions. A batch of 2 columns with no row faults, at
  the flattening. And with the linear map of the default ranges, a batch of 1 column
  succeeds: the map broadcasts the column to two (here with all weights zero, so that the
  output is \<open>(tanh 0 + 1) / 2\<close>).
\<close>

theorem Fourier_width_counterexample:
  "snd (Fourier_forward (Fourier_init (\<lambda>k i j. 0) (\<lambda>k i. 0) 2 1 1 None False) (Batch 2 []))
     = Inl AmbiguousView
   \<and> CenteredLinearMap_init (- 5 / 2) 1 (- 11 / 10) (11 / 10) None None False
     = Inr \<lparr>lm_m = \<lparr>dev = CPU, vals = [1, 1]\<rparr>, lm_b = \<lparr>dev = CPU, vals = [3 / 4, 0]\<rparr>,
            lm_use_cuda = False\<rparr>
   \<and> snd (Fourier_forward
            (Fourier_init (\<lambda>k i j. 0) (\<lambda>k i. 0) 1 1 1
               (Some \<lparr>lm_m = \<lparr>dev = CPU, vals = [1, 1]\<rparr>, lm_b = \<lparr>dev = CPU, vals = [3 / 4, 0]\<rparr>,
                      lm_use_cuda = False\<rparr>) False)
            (Batch 1 [[0]]))
     = Inr (T2 (Batch 1 [[1 / 2]]))"
proof -
  let ?lm = "\<lparr>lm_m = \<lparr>dev = CPU, vals = [1, 1]\<rparr>, lm_b = \<lparr>dev = CPU, vals = [3 / 4, 0]\<rparr>,
              lm_use_cuda = False\<rparr>"
  have empty: "snd (Fourier_forward (Fourier_init (\<lambda>k i j. 0) (\<lambda>k i. 0) 2 1 1 None False)
                 (Batch 2 [])) = Inl AmbiguousView"
    by (simp add: Fourier_forward_snd Fourier_features_empty del: upt_Suc)
  have init: "CenteredLinearMap_init (- 5 / 2) 1 (- 11 / 10) (11 / 10) None None False = Inr ?lm"
    by (simp add: CenteredLinearMap_init_def axis_scale_def)
  have m: "snd (apply_linmap (Some ?lm) (Batch 1 [[0]])) = Inr (Batch 2 [[3 / 4, 0]])"
    unfolding apply_linmap_Some by (simp add: bcast_def)
  have u: "[1..<1 + 1] = [1]" "[0..<6] = [0, 1, 2, 3, 4, 5]" "[0..<7] = [0, 1, 2, 3, 4, 5, 6]"
    "[0..<8] = [0, 1, 2, 3, 4, 5, 6, 7]" "[0..<1] = [0]"
    by (simp_all add: upt_rec)
  have f: "Fourier_features (map real [1..<1 + 1]) (Batch 2 [[3 / 4, 0]])
           = Inr (Batch 6 [[sin (3 / 4), cos (3 / 4), 3 / 4, 0, 1, 0]])"
    unfolding u by (simp add: Fourier_features_rows)
  have body: "SkipConn_body
                (SkipConn_init (\<lambda>k i j. 0) (\<lambda>k i. 0) 1 1 (1 * 4 + 2) None LeakyReLU False)
                (Batch 6 [[sin (3 / 4), cos (3 / 4), 3 / 4, 0, 1, 0]])
              = Inr (T2 (Batch 1 [[1 / 2]]))"
    by (simp add: SkipConn_body_def SkipConn_init_def Linear_def u affine_def dot_def cat1_def
        hcat_def LeakyReLU_def squash_def)
  have "snd (Fourier_forward (Fourier_init (\<lambda>k i j. 0) (\<lambda>k i. 0) 1 1 1 (Some ?lm) False)
               (Batch 1 [[0]])) = Inr (T2 (Batch 1 [[1 / 2]]))"
    unfolding Fourier_forward_snd m sum.case f body ..
  with empty init show ?thesis
    by (simp only: simp_thms)
qed

section \<open>Range of the outputs\<close>





section \<open>Rounding to binary32\<close>























section \<open>Determinism and what a call leaves unchanged\<close>

lemma place_idem: "place (place lm) = place lm"
  by (simp add: place_def cuda_def)

lemma lm_values_place: "lm_values (place lm) = lm_values lm"
  by (simp add: lm_values_def vals_place)

lemma apply_linmap_fst_values:
  "map_option lm_values (fst (apply_linmap l x)) = map_option lm_values l"
  by (cases l) (simp_all add: CenteredLinearMap_map_def Let_def lm_values_place)

lemma apply_linmap_snd_values:
  assumes "map_option lm_values l1 = map_option lm_values l2"
  shows "snd (apply_linmap l1 x) = snd (apply_linmap l2 x)"
proof (cases l1)
  case None
  then show ?thesis using assms by simp
next
  case (Some a)
  then obtain c where c: "l2 = Some c" "lm_values a = lm_values c"
    using assms by (cases l2) auto
  have v: "vals (lm_m a) = vals (lm_m c)" "vals (lm_b a) = vals (lm_b c)"
    using c(2) by (simp_all add: lm_values_def)
  show ?thesis
    unfolding Some c(1) apply_linmap_Some v ..
qed

lemma apply_linmap_idem: "apply_linmap (fst (apply_linmap l x)) x = apply_linmap l x"
proof (cases l)
  case None
  then show ?thesis by simp
next
  case (Some a)
  have "snd (apply_linmap (Some (place a)) x) = snd (apply_linmap (Some a) x)"
    by (rule apply_linmap_snd_values) (simp add: lm_values_place)
  moreover have "fst (apply_linmap (Some (place a)) x) = fst (apply_linmap (Some a) x)"
    by (simp add: CenteredLinearMap_map_def Let_def place_idem)
  moreover have "fst (apply_linmap (Some a) x) = Some (place a)"
    by (simp add: CenteredLinearMap_map_def Let_def)
  ultimately show ?thesis
    unfolding Some by (simp add: prod_eq_iff)
qed

lemma SkipConn_body_values:
  assumes "inLayer a = inLayer c" "activation a = activation c" "hidden a = hidden c"
    "outLayer a = outLayer c"
  shows "SkipConn_body a x = SkipConn_body c x"
  unfolding SkipConn_body_def assms ..

lemma SkipConn_forward_values:
  assumes "sc_values a = sc_values c"
  shows "snd (SkipConn_forward a x) = snd (SkipConn_forward c x)"
proof -
  have f: "inLayer a = inLayer c" "activation a = activation c" "hidden a = hidden c"
    "outLayer a = outLayer c"
    and l: "map_option lm_values (sc_linmap a) = map_option lm_values (sc_linmap c)"
    using assms by (simp_all add: sc_values_def)
  have eq: "SkipConn_body a = SkipConn_body c"
    using SkipConn_body_values [OF f] by (rule ext)
  show ?thesis
    unfolding SkipConn_forward_def Let_def snd_conv apply_linmap_snd_values [OF l, of x] eq ..
qed

lemma SkipConn_forward_keeps: "sc_values (fst (SkipConn_forward sc x)) = sc_values sc"
  by (simp add: SkipConn_forward_def Let_def sc_values_def apply_linmap_fst_values)

lemma SkipConn_forward_idem:
  "SkipConn_forward (fst (SkipConn_forward sc x)) x = SkipConn_forward sc x"
proof -
  let ?sc' = "sc\<lparr>sc_linmap := fst (apply_linmap (sc_linmap sc) x)\<rparr>"
  have eq: "SkipConn_body ?sc' = SkipConn_body sc"
    by (rule ext) (rule SkipConn_body_values, simp_all)
  show ?thesis
    unfolding SkipConn_forward_def Let_def fst_conv
    by (simp add: apply_linmap_idem eq cong: sum.case_cong)
qed

lemma Fourier_forward_keeps: "fourier_values (fst (Fourier_forward f x)) = fourier_values f"
  by (simp add: Fourier_forward_def Let_def fourier_values_def apply_linmap_fst_values
      SkipConn_forward_keeps split: sum.splits)

lemma Fourier_forward_idem: "Fourier_forward (fst (Fourier_forward f x)) x = Fourier_forward f x"
  by (simp add: Fourier_forward_def Let_def apply_linmap_idem SkipConn_forward_idem
      split: sum.splits)

lemma Fourier_forward_values:
  assumes "fourier_values a = fourier_values c"
  shows "snd (Fourier_forward a x) = snd (Fourier_forward c x)"
proof -
  have o: "f_orders a = f_orders c"
    and l: "map_option lm_values (f_linmap a) = map_option lm_values (f_linmap c)"
    and i: "sc_values (f_inner_model a) = sc_values (f_inner_model c)"
    using assms by (simp_all add: fourier_values_def)
  show ?thesis
    using apply_linmap_snd_values [OF l, of x] SkipConn_forward_values [OF i]
    by (simp add: Fourier_forward_def Let_def o split: sum.splits)
qed

lemma Fourier2D_forward_keeps:
  "fourier2d_values (fst (Fourier2D_forward f x)) = fourier2d_values f"
  by (simp add: Fourier2D_forward_def Let_def fourier2d_values_def apply_linmap_fst_values
      SkipConn_forward_keeps split: sum.splits)

lemma Fourier2D_forward_idem:
  "Fourier2D_forward (fst (Fourier2D_forward f x)) x = Fourier2D_forward f x"
  by (simp add: Fourier2D_forward_def Let_def apply_linmap_idem SkipConn_forward_idem
      split: sum.splits)

lemma Fourier2D_forward_values:
  assumes "fourier2d_values a = fourier2d_values c"
  shows "snd (Fourier2D_forward a x) = snd (Fourier2D_forward c x)"
proof -
  have o: "f2_orders a = f2_orders c"
    and l: "map_option lm_values (f2_linmap a) = map_option lm_values (f2_linmap c)"
    and i: "sc_values (f2_inner_model a) = sc_values (f2_inner_model c)"
    using assms by (simp_all add: fourier2d_values_def)
  show ?thesis
    using apply_linmap_snd_values [OF l, of x] SkipConn_forward_values [OF i]
    by (simp add: Fourier2D_forward_def Let_def o split: sum.splits)
qed

lemma Taylor_forward_keeps: "taylor_values (fst (Taylor_forward f x)) = taylor_values f"
  by (simp add: Taylor_forward_def Let_def taylor_values_def apply_linmap_fst_values
      SkipConn_forward_keeps split: sum.splits)

lemma Taylor_forward_idem: "Taylor_forward (fst (Taylor_forward f x)) x = Taylor_forward f x"
  by (simp add: Taylor_forward_def Let_def apply_linmap_idem SkipConn_forward_idem
      split: sum.splits)

lemma Taylor_forward_values:
  assumes "taylor_values a = taylor_values c"
  shows "snd (Taylor_forward a x) = snd (Taylor_forward c x)"
proof -
  have o: "taylor_order a = taylor_order c"
    and l: "map_option lm_values (t_linmap a) = map_option lm_values (t_linmap c)"
    and i: "sc_values (t_inner_model a) = sc_values (t_inner_model c)"
    using assms by (simp_all add: taylor_values_def)
  show ?thesis
    using apply_linmap_snd_values [OF l, of x] SkipConn_forward_values [OF i]
    by (simp add: Taylor_forward_def Let_def o split: sum.splits)
qed

text \<open>
  Claim C8. For the linear map and for every model variant: a call leaves every value the
  model computes from as it was (only the placement of the linear map's vectors can
  change); a second call on the model as the first call left it returns the same output
  and leaves the same model; and two models with the same values return the same output
  on the same batch, wherever their linear maps are placed.
\<close>

theorem forward_deterministic:
  "lm_values (fst (CenteredLinearMap_map lm x)) = lm_values lm
   \<and> CenteredLinearMap_map (fst (CenteredLinearMap_map lm x)) x = CenteredLinearMap_map lm x
   \<and> (lm_values lm = lm_values lm' \<longrightarrow>
        snd (CenteredLinearMap_map lm x) = snd (CenteredLinearMap_map lm' x))
   \<and> sc_values (fst (SkipConn_forward sc x)) = sc_values sc
   \<and> SkipConn_forward (fst (SkipConn_forward sc x)) x = SkipConn_forward sc x
   \<and> (sc_values sc = sc_values sc' \<longrightarrow>
        snd (SkipConn_forward sc x) = snd (SkipConn_forward sc' x))
   \<and> fourier_values (fst (Fourier_forward f x)) = fourier_values f
   \<and> Fourier_forward (fst (Fourier_forward f x)) x = Fourier_forward f x
   \<and> (fourier_values f = fourier_values f' \<longrightarrow>
        snd (Fourier_forward f x) = snd (Fourier_forward f' x))
   \<and> fourier2d_values (fst (Fourier2D_forward g x)) = fourier2d_values g
   \<and> Fourier2D_forward (fst (Fourier2D_forward g x)) x = Fourier2D_forward g x
   \<and> (fourier2d_values g = fourier2d_values g' \<longrightarrow>
        snd (Fourier2D_forward g x) = snd (Fourier2D_forward g' x))
   \<and> taylor_values (fst (Taylor_forward t x)) = taylor_values t
   \<and> Taylor_forward (fst (Taylor_forward t x)) x = Taylor_forward t x
   \<and> (taylor_values t = taylor_values t' \<longrightarrow>
        snd (Taylor_forward t x) = snd (Taylor_forward t' x))"
proof -
  have m1: "lm_values (fst (CenteredLinearMap_map lm x)) = lm_values lm"
    by (simp add: CenteredLinearMap_map_def Let_def lm_values_place)
  have m2: "CenteredLinearMap_map (fst (CenteredLinearMap_map lm x)) x = CenteredLinearMap_map lm x"
    using apply_linmap_idem [of "Some lm" x] by (simp add: prod_eq_iff)
  have m3: "snd (CenteredLinearMap_map lm x) = snd (CenteredLinearMap_map lm' x)"
    if "lm_values lm = lm_values lm'"
    using apply_linmap_snd_values [of "Some lm" "Some lm'" x] that by simp
  show ?thesis
    using m1 m2 m3
      SkipConn_forward_keeps [of sc x] SkipConn_forward_idem [of sc x]
      SkipConn_forward_values [of sc sc' x]
      Fourier_forward_keeps [of f x] Fourier_forward_idem [of f x]
      Fourier_forward_values [of f f' x]
      Fourier2D_forward_keeps [of g x] Fourier2D_forward_idem [of g x]
      Fourier2D_forward_values [of g g' x]
      Taylor_forward_keeps [of t x] Taylor_forward_idem [of t x]
      Taylor_forward_values [of t t' x]
    by blast
qed

theorem forward_deterministic_witness:
  "sc_values (SkipConn_init (\<lambda>k i j. 0) (\<lambda>k i. 0) 1 1 2
       (Some \<lparr>lm_m = \<lparr>dev = CPU, vals = [1, 1]\<rparr>, lm_b = \<lparr>dev = CPU, vals = [3 / 4, 0]\<rparr>,
              lm_use_cuda = True\<rparr>) LeakyReLU True)
   = sc_values (SkipConn_init (\<lambda>k i j. 0) (\<lambda>k i. 0) 1 1 2
       (Some \<lparr>lm_m = \<lparr>dev = CUDA, vals = [1, 1]\<rparr>, lm_b = \<lparr>dev = CUDA, vals = [3 / 4, 0]\<rparr>,
              lm_use_cuda = True\<rparr>) LeakyReLU True)
   \<and> snd (SkipConn_forward (SkipConn_init (\<lambda>k i j. 0) (\<lambda>k i. 0) 1 1 2
       (Some \<lparr>lm_m = \<lparr>dev = CPU, vals = [1, 1]\<rparr>, lm_b = \<lparr>dev = CPU, vals = [3 / 4, 0]\<rparr>,
              lm_use_cuda = True\<rparr>) LeakyReLU True) (Batch 2 [[3, 4]]))
   = snd (SkipConn_forward (SkipConn_init (\<lambda>k i j. 0) (\<lambda>k i. 0) 1 1 2
       (Some \<lparr>lm_m = \<lparr>dev = CUDA, vals = [1, 1]\<rparr>, lm_b = \<lparr>dev = CUDA, vals = [3 / 4, 0]\<rparr>,
              lm_use_cuda = True\<rparr>) LeakyReLU True) (Batch 2 [[3, 4]]))
   \<and> fst (SkipConn_forward (SkipConn_init (\<lambda>k i j. 0) (\<lambda>k i. 0) 1 1 2
       (Some \<lparr>lm_m = \<lparr>dev = CPU, vals = [1, 1]\<rparr>, lm_b = \<lparr>dev = CPU, vals = [3 / 4, 0]\<rparr>,
              lm_use_cuda = True\<rparr>) LeakyReLU True) (Batch 2 [[3, 4]]))
   = SkipConn_init (\<lambda>k i j. 0) (\<lambda>k i. 0) 1 1 2
       (Some \<lparr>lm_m = \<lparr>dev = CUDA, vals = [1, 1]\<rparr>, lm_b = \<lparr>dev = CUDA, vals = [3 / 4, 0]\<rparr>,
              lm_use_cuda = True\<rparr>) LeakyReLU True"
proof -
  let ?a = "SkipConn_init (\<lambda>k i j. 0) (\<lambda>k i. 0) 1 1 2
       (Some \<lparr>lm_m = \<lparr>dev = CPU, vals = [1, 1]\<rparr>, lm_b = \<lparr>dev = CPU, vals = [3 / 4, 0]\<rparr>,
              lm_use_cuda = True\<rparr>) LeakyReLU True"
  let ?c = "SkipConn_init (\<lambda>k i j. 0) (\<lambda>k i. 0) 1 1 2
       (Some \<lparr>lm_m = \<lparr>dev = CUDA, vals = [1, 1]\<rparr>, lm_b = \<lparr>dev = CUDA, vals = [3 / 4, 0]\<rparr>,
              lm_use_cuda = True\<rparr>) LeakyReLU True"
  have same: "sc_values ?a = sc_values ?c"
    by (simp add: sc_values_def SkipConn_init_def lm_values_def)
  have moved: "fst (SkipConn_forward ?a (Batch 2 [[3, 4]])) = ?c"
    by (simp add: SkipConn_forward_def SkipConn_init_def CenteredLinearMap_map_def Let_def
        place_def cuda_def)
  have "snd (SkipConn_forward ?a (Batch 2 [[3, 4]])) = snd (SkipConn_forward ?c (Batch 2 [[3, 4]]))"
    using forward_deterministic [where sc = ?a and x = "Batch 2 [[3, 4]]" and sc' = ?c] same
    by blast
  then show ?thesis
    using same moved by (simp only: simp_thms)
qed

end
